theory Spec2Isabelle
  imports Main
begin

section \<open>JavaScript values used by the two pages\<close>

text \<open>
  The repository's logic lives in two React pages, \<^verbatim>\<open>LoadFile.tsx\<close> and
  \<^verbatim>\<open>ParseFile.tsx\<close>. Each page is a record of \<^verbatim>\<open>useState\<close> cells, a set of
  event handlers that update the cells and call \<^verbatim>\<open>fetch\<close>, and a render function.
  A handler is modelled as a function on the record of cells; an \<^verbatim>\<open>async\<close> handler
  is cut at its \<^verbatim>\<open>await fetch(...)\<close> into the part that runs before the request
  leaves and the part that runs once the outcome of the request is known.

  Strings are HOL strings, read as UTF-8 bytes: the Chinese user-interface texts are
  written out as their byte sequences. A response payload is taken to be a JSON object
  whose fields, when present, have the types the page's interfaces declare; counts and
  page numbers are integers.

  \<^verbatim>\<open>String.prototype.toLowerCase\<close> is a built-in of the language, with a case mapping
  for all of Unicode. The handlers that call it take it as their first argument, and what
  is proved of them holds for every such function. \<open>toLowerCase_ascii\<close> is what the
  built-in does on a name made of ASCII characters: the letters A to Z go to a to z and
  nothing else changes. It is used in the examples, whose names are all ASCII.
\<close>

subsection \<open>String primitives\<close>

definition toLowerCase_ascii_char :: "char \<Rightarrow> char" where
  "toLowerCase_ascii_char c =
     (let n = of_char c :: nat in if 65 \<le> n \<and> n \<le> 90 then char_of (n + 32) else c)"

definition toLowerCase_ascii :: "string \<Rightarrow> string" where
  "toLowerCase_ascii s = map toLowerCase_ascii_char s"

definition endsWith :: "string \<Rightarrow> string \<Rightarrow> bool" where
  \<comment> \<open>\<^verbatim>\<open>s.endsWith(t)\<close>: the last \<open>length t\<close> characters of \<open>s\<close> are \<open>t\<close>\<close>
  "endsWith s t = (length t \<le> length s \<and> drop (length s - length t) s = t)"

definition split_first :: "string \<Rightarrow> string" where
  \<comment> \<open>\<^verbatim>\<open>s.split('.')[0]\<close>: everything before the first dot\<close>
  "split_first s = takeWhile (\<lambda>c. c \<noteq> CHR ''.'') s"

definition digit :: "nat \<Rightarrow> char" where
  "digit d = ''0123456789'' ! d"

fun show_nat :: "nat \<Rightarrow> string" where
  "show_nat n = (if n < 10 then [digit n] else show_nat (n div 10) @ [digit (n mod 10)])"

definition String_bool :: "bool \<Rightarrow> string" where
  \<comment> \<open>\<^verbatim>\<open>String(b)\<close> on a boolean\<close>
  "String_bool b = (if b then ''true'' else ''false'')"

subsection \<open>Files, form data, requests and their outcomes\<close>

datatype File = File (name: string) (bytes: string)

text \<open>
  A numeric chunking option holds what \<^verbatim>\<open>parseInt\<close> gave: an integer, NaN, or an
  infinity for a digit string beyond the range of numbers.
\<close>

datatype Number = Integer int | NaN | Infinity | MinusInfinity

record ChunkingOptions =
  maxCharacters :: Number
  newAfterNChars :: Number
  combineTextUnderNChars :: Number
  overlap :: Number
  overlapAll :: bool
  multiPageSections :: bool

text \<open>
  A value appended to a \<^verbatim>\<open>FormData\<close>: a file, a string, or the string that
  \<^verbatim>\<open>JSON.stringify\<close> gives for the chunking options. The characters of that string
  are not modelled.
\<close>

datatype FormValue = FileValue File | TextValue string | JsonValue ChunkingOptions

type_synonym FormData = "(string \<times> FormValue) list"

record Request =
  "method" :: string
  url :: string
  body :: "FormData option"

text \<open>
  What a \<^verbatim>\<open>catch\<close> clause can receive: an \<^verbatim>\<open>Error\<close> instance with its message,
  or any other thrown value. A \<^verbatim>\<open>fetch\<close> either rejects or resolves with a response
  that has a numeric status; \<^verbatim>\<open>response.json()\<close> either yields the payload or rejects.
\<close>

datatype Thrown = JsError string | JsOther

datatype 'a Json = Parsed 'a | JsonRejected Thrown

datatype 'a Outcome = FetchRejected Thrown | Response nat "'a Json"

text \<open>A render that throws.\<close>

datatype RenderError = TypeError

definition ok :: "nat \<Rightarrow> bool" where
  \<comment> \<open>\<^verbatim>\<open>response.ok\<close>: the status is in the range 200 to 299\<close>
  "ok code = (200 \<le> code \<and> code \<le> 299)"

definition http_error :: "nat \<Rightarrow> Thrown" where
  \<comment> \<open>\<^verbatim>\<open>new Error(`HTTP error! status: ${response.status}`)\<close>\<close>
  "http_error code = JsError (''HTTP error! status: '' @ show_nat code)"

definition msg_required :: string where
  \<comment> \<open>Please select all required options; UTF-8 of U+8BF7 U+9009 U+62E9 U+6240 U+6709 U+5FC5 U+9700 U+7684 U+9009 U+9879\<close>
  "msg_required =
     [CHR 0xE8, CHR 0xAF, CHR 0xB7, CHR 0xE9, CHR 0x80, CHR 0x89, CHR 0xE6, CHR 0x8B,
     CHR 0xA9, CHR 0xE6, CHR 0x89, CHR 0x80, CHR 0xE6, CHR 0x9C, CHR 0x89, CHR 0xE5,
     CHR 0xBF, CHR 0x85, CHR 0xE9, CHR 0x9C, CHR 0x80, CHR 0xE7, CHR 0x9A, CHR 0x84,
     CHR 0xE9, CHR 0x80, CHR 0x89, CHR 0xE9, CHR 0xA1, CHR 0xB9]"

definition msg_loading :: string where
  \<comment> \<open>Loading...; UTF-8 of U+52A0 U+8F7D U+4E2D\<close>
  "msg_loading =
     [CHR 0xE5, CHR 0x8A, CHR 0xA0, CHR 0xE8, CHR 0xBD, CHR 0xBD, CHR 0xE4, CHR 0xB8,
     CHR 0xAD] @ ''...''"

definition msg_load_ok :: string where
  \<comment> \<open>File loaded successfully!; UTF-8 of U+6587 U+4EF6 U+52A0 U+8F7D U+6210 U+529F\<close>
  "msg_load_ok =
     [CHR 0xE6, CHR 0x96, CHR 0x87, CHR 0xE4, CHR 0xBB, CHR 0xB6, CHR 0xE5, CHR 0x8A,
     CHR 0xA0, CHR 0xE8, CHR 0xBD, CHR 0xBD, CHR 0xE6, CHR 0x88, CHR 0x90, CHR 0xE5,
     CHR 0x8A, CHR 0x9F] @ ''!''"

definition msg_error_prefix :: string where
  \<comment> \<open>Error: ; UTF-8 of U+9519 U+8BEF\<close>
  "msg_error_prefix =
     [CHR 0xE9, CHR 0x94, CHR 0x99, CHR 0xE8, CHR 0xAF, CHR 0xAF] @ '': ''"

definition msg_unknown_error :: string where
  \<comment> \<open>unknown error; UTF-8 of U+672A U+77E5 U+9519 U+8BEF\<close>
  "msg_unknown_error =
     [CHR 0xE6, CHR 0x9C, CHR 0xAA, CHR 0xE7, CHR 0x9F, CHR 0xA5, CHR 0xE9, CHR 0x94,
     CHR 0x99, CHR 0xE8, CHR 0xAF, CHR 0xAF]"

definition msg_delete_ok :: string where
  \<comment> \<open>Document deleted successfully; UTF-8 of U+6587 U+6863 U+5220 U+9664 U+6210 U+529F\<close>
  "msg_delete_ok =
     [CHR 0xE6, CHR 0x96, CHR 0x87, CHR 0xE6, CHR 0xA1, CHR 0xA3, CHR 0xE5, CHR 0x88,
     CHR 0xA0, CHR 0xE9, CHR 0x99, CHR 0xA4, CHR 0xE6, CHR 0x88, CHR 0x90, CHR 0xE5,
     CHR 0x8A, CHR 0x9F]"

definition msg_delete_error_prefix :: string where
  \<comment> \<open>Error deleting document: ; UTF-8 of U+5220 U+9664 U+6587 U+6863 U+9519 U+8BEF\<close>
  "msg_delete_error_prefix =
     [CHR 0xE5, CHR 0x88, CHR 0xA0, CHR 0xE9, CHR 0x99, CHR 0xA4, CHR 0xE6, CHR 0x96,
     CHR 0x87, CHR 0xE6, CHR 0xA1, CHR 0xA3, CHR 0xE9, CHR 0x94, CHR 0x99, CHR 0xE8,
     CHR 0xAF, CHR 0xAF] @ '': ''"

definition msg_view_loading :: string where
  \<comment> \<open>Loading document...; UTF-8 of U+52A0 U+8F7D U+6587 U+6863\<close>
  "msg_view_loading =
     [CHR 0xE5, CHR 0x8A, CHR 0xA0, CHR 0xE8, CHR 0xBD, CHR 0xBD, CHR 0xE6, CHR 0x96,
     CHR 0x87, CHR 0xE6, CHR 0xA1, CHR 0xA3] @ ''...''"

definition msg_view_error_prefix :: string where
  \<comment> \<open>Error loading document: ; UTF-8 of U+52A0 U+8F7D U+6587 U+6863 U+9519 U+8BEF\<close>
  "msg_view_error_prefix =
     [CHR 0xE5, CHR 0x8A, CHR 0xA0, CHR 0xE8, CHR 0xBD, CHR 0xBD, CHR 0xE6, CHR 0x96,
     CHR 0x87, CHR 0xE6, CHR 0xA1, CHR 0xA3, CHR 0xE9, CHR 0x94, CHR 0x99, CHR 0xE8,
     CHR 0xAF, CHR 0xAF] @ '': ''"

definition msg_processing :: string where
  \<comment> \<open>Processing...; UTF-8 of U+5904 U+7406 U+4E2D\<close>
  "msg_processing =
     [CHR 0xE5, CHR 0xA4, CHR 0x84, CHR 0xE7, CHR 0x90, CHR 0x86, CHR 0xE4, CHR 0xB8,
     CHR 0xAD] @ ''...''"

definition msg_parse_ok :: string where
  \<comment> \<open>Processing completed successfully!; UTF-8 of U+5904 U+7406 U+6210 U+529F U+5B8C U+6210\<close>
  "msg_parse_ok =
     [CHR 0xE5, CHR 0xA4, CHR 0x84, CHR 0xE7, CHR 0x90, CHR 0x86, CHR 0xE6, CHR 0x88,
     CHR 0x90, CHR 0xE5, CHR 0x8A, CHR 0x9F, CHR 0xE5, CHR 0xAE, CHR 0x8C, CHR 0xE6,
     CHR 0x88, CHR 0x90] @ ''!''"

definition error_text :: "Thrown \<Rightarrow> string" where
  \<comment> \<open>\<^verbatim>\<open>error instanceof Error ? error.message : (unknown error)\<close>\<close>
  "error_text e = (case e of JsError m \<Rightarrow> m | JsOther \<Rightarrow> msg_unknown_error)"

section \<open>The load page (LoadFile.tsx)\<close>

subsection \<open>Payloads and state\<close>

text \<open>
  Response payloads arrive as untyped JSON. A field the renderer guards, or that the
  interface marks optional, is an \<open>option\<close>: \<open>None\<close> is the absent field.
\<close>

record ChunkMetadata =
  chunk_id :: "string option"
  page_number :: "int option"
  word_count :: "int option"
  page_range :: "string option"

record Chunk =
  content :: "string option"
  "text" :: "string option"
  metadata :: "ChunkMetadata option"

record DocumentMetadata =
  total_pages :: "int option"
  total_chunks :: "int option"
  loading_method :: "string option"
  chunking_method :: "string option"
  timestamp :: "string option"
  document_type :: "string option"

record LoadedContent =
  chunks :: "Chunk list option"
  total_pages :: "int option"
  total_chunks :: "int option"
  loading_method :: "string option"
  chunking_method :: "string option"
  timestamp :: "string option"
  document_type :: "string option"

record Document =
  name :: string
  metadata :: "DocumentMetadata option"

text \<open>
  The cell \<^verbatim>\<open>documents\<close> holds what \<^verbatim>\<open>setDocuments\<close> was given: a list, or
  \<^verbatim>\<open>undefined\<close> (\<open>None\<close>) when the answer had no \<^verbatim>\<open>documents\<close> field.
\<close>

record Load =
  "file" :: "File option"
  fileType :: string
  loadingMethod :: string
  encoding :: string
  delimiter :: string
  usePandas :: bool
  unstructuredStrategy :: string
  chunkingStrategy :: string
  chunkingOptions :: ChunkingOptions
  loadedContent :: "LoadedContent option"
  status :: string
  documents :: "Document list option"
  activeTab :: string
  selectedDoc :: "Document option"

definition LoadFile_init :: Load where
  "LoadFile_init =
     \<lparr> file = None, fileType = ''pdf'', loadingMethod = ''pymupdf'', encoding = ''utf-8'',
       delimiter = '','', usePandas = True, unstructuredStrategy = ''fast'',
       chunkingStrategy = ''basic'',
       chunkingOptions =
         \<lparr> maxCharacters = Integer 4000, newAfterNChars = Integer 3000,
           combineTextUnderNChars = Integer 500, overlap = Integer 200, overlapAll = False,
           multiPageSections = False \<rparr>,
       loadedContent = None, status = [], documents = Some [], activeTab = ''preview'',
       selectedDoc = None \<rparr>"

subsection \<open>File selection and the effect on fileType\<close>

definition LoadFile_fileTypeEffect :: "Load \<Rightarrow> Load" where
  \<comment> \<open>body of the \<^verbatim>\<open>useEffect\<close> with dependency \<^verbatim>\<open>[fileType]\<close>\<close>
  "LoadFile_fileTypeEffect s =
     (if fileType s = ''pdf'' then s\<lparr>loadingMethod := ''pymupdf''\<rparr>
      else if fileType s = ''txt'' \<or> fileType s = ''md'' then s\<lparr>loadingMethod := ''basic''\<rparr>
      else if fileType s = ''csv'' then s\<lparr>loadingMethod := ''pandas''\<rparr>
      else s)"

definition handleFileChange ::
    "(string \<Rightarrow> string) \<Rightarrow> File list option \<Rightarrow> Load \<Rightarrow> Load" where
  "handleFileChange toLowerCase files s =
     (case files of
        None \<Rightarrow> s
      | Some [] \<Rightarrow> s
      | Some (selectedFile # _) \<Rightarrow>
          (let s1 = s\<lparr>file := Some selectedFile\<rparr>;
               fileName = toLowerCase (File.name selectedFile)
           in if endsWith fileName ''.pdf'' then
                s1\<lparr>fileType := ''pdf'', loadingMethod := ''pymupdf''\<rparr>
              else if endsWith fileName ''.txt'' then
                s1\<lparr>fileType := ''txt'', loadingMethod := ''basic''\<rparr>
              else if endsWith fileName ''.csv'' then
                s1\<lparr>fileType := ''csv'', loadingMethod := ''pandas''\<rparr>
              else if endsWith fileName ''.md'' \<or> endsWith fileName ''.markdown'' then
                s1\<lparr>fileType := ''md'', loadingMethod := ''basic''\<rparr>
              else
                s1\<lparr>fileType := ''other'', loadingMethod := []\<rparr>))"

text \<open>
  React runs an effect after the render that follows a handler when one of its
  dependencies has changed; \<open>LoadFile_select\<close> is the file input's change event
  followed by that render.
\<close>

definition LoadFile_select ::
    "(string \<Rightarrow> string) \<Rightarrow> File list option \<Rightarrow> Load \<Rightarrow> Load" where
  "LoadFile_select toLowerCase files s =
     (let s' = handleFileChange toLowerCase files s
      in if fileType s' \<noteq> fileType s then LoadFile_fileTypeEffect s' else s')"

subsection \<open>Submitting a file\<close>

definition LoadFile_formData :: "File \<Rightarrow> Load \<Rightarrow> FormData" where
  "LoadFile_formData f s =
     [(''file'', FileValue f),
      (''file_type'', TextValue (fileType s)),
      (''loading_method'', TextValue (loadingMethod s))]
     @ (if fileType s = ''pdf'' \<and> loadingMethod s = ''unstructured'' then
          [(''strategy'', TextValue (unstructuredStrategy s)),
           (''chunking_strategy'', TextValue (chunkingStrategy s)),
           (''chunking_options'', JsonValue (chunkingOptions s))]
        else if fileType s = ''txt'' \<or> fileType s = ''md'' then
          [(''encoding'', TextValue (encoding s))]
          @ (if chunkingStrategy s \<noteq> [] then
               [(''chunking_strategy'', TextValue (chunkingStrategy s)),
                (''chunking_options'', JsonValue (chunkingOptions s))]
             else [])
        else if fileType s = ''csv'' then
          [(''delimiter'', TextValue (delimiter s)),
           (''encoding'', TextValue (encoding s)),
           (''use_pandas'', TextValue (String_bool (usePandas s)))]
        else [])"

definition fetchDocuments_request :: "string \<Rightarrow> Request" where
  "fetchDocuments_request apiBaseUrl =
     \<lparr> method = ''GET'', url = apiBaseUrl @ ''/documents?type=loaded'', body = None \<rparr>"

definition fetchDocuments_resume :: "Document list option Outcome \<Rightarrow> Load \<Rightarrow> Load" where
  \<comment> \<open>no check of \<^verbatim>\<open>response.ok\<close>; a failure is logged and changes nothing; the
      payload is the field \<^verbatim>\<open>data.documents\<close>, \<open>None\<close> when the answer has none\<close>
  "fetchDocuments_resume out s =
     (case out of
        FetchRejected e \<Rightarrow> s
      | Response code (JsonRejected e) \<Rightarrow> s
      | Response code (Parsed data_documents) \<Rightarrow> s\<lparr>documents := data_documents\<rparr>)"

text \<open>
  \<open>LoadFile_handleProcess_start\<close> is \<^verbatim>\<open>handleProcess\<close> up to the moment the
  request has been handed to \<^verbatim>\<open>fetch\<close>: the state the page shows while it waits,
  and the request, if one was issued. \<open>LoadFile_handleProcess_resume\<close> is the rest:
  the state updates and the further requests once the outcome is known.
\<close>

definition LoadFile_handleProcess_start :: "string \<Rightarrow> Load \<Rightarrow> Load \<times> Request option" where
  "LoadFile_handleProcess_start apiBaseUrl s =
     (case file s of
        None \<Rightarrow> (s\<lparr>status := msg_required\<rparr>, None)
      | Some f \<Rightarrow>
          if loadingMethod s = [] then (s\<lparr>status := msg_required\<rparr>, None)
          else (s\<lparr>status := msg_loading, loadedContent := None\<rparr>,
                Some \<lparr> method = ''POST'', url = apiBaseUrl @ ''/load'',
                       body = Some (LoadFile_formData f s) \<rparr>))"

definition LoadFile_handleProcess_resume ::
    "string \<Rightarrow> LoadedContent option Outcome \<Rightarrow> Load \<Rightarrow> Load \<times> Request list" where
  "LoadFile_handleProcess_resume apiBaseUrl out s =
     (case (case out of
              FetchRejected e \<Rightarrow> Inl e
            | Response code j \<Rightarrow>
                if \<not> ok code then Inl (http_error code)
                else (case j of JsonRejected e \<Rightarrow> Inl e | Parsed data \<Rightarrow> Inr data)) of
        Inl error \<Rightarrow> (s\<lparr>status := msg_error_prefix @ error_text error\<rparr>, [])
      | Inr loaded_content \<Rightarrow>
          (s\<lparr>loadedContent := loaded_content, status := msg_load_ok,
             activeTab := ''preview''\<rparr>,
           [fetchDocuments_request apiBaseUrl]))"

definition LoadFile_handleProcess ::
    "string \<Rightarrow> Load \<Rightarrow> LoadedContent option Outcome \<Rightarrow> Load \<times> Request list" where
  \<comment> \<open>one whole submission, with the outcome the network gives to its request\<close>
  "LoadFile_handleProcess apiBaseUrl s out =
     (case LoadFile_handleProcess_start apiBaseUrl s of
        (s1, None) \<Rightarrow> (s1, [])
      | (s1, Some req) \<Rightarrow>
          (let (s2, more) = LoadFile_handleProcess_resume apiBaseUrl out s1
           in (s2, req # more)))"

subsection \<open>Viewing and deleting a stored document\<close>

definition handleViewDocument_start :: "string \<Rightarrow> Document \<Rightarrow> Load \<Rightarrow> Load \<times> Request" where
  "handleViewDocument_start apiBaseUrl doc s =
     (s\<lparr>status := msg_view_loading\<rparr>,
      \<lparr> method = ''GET'', url = apiBaseUrl @ ''/documents/'' @ Document.name doc @ ''.json'',
        body = None \<rparr>)"

definition handleViewDocument_resume ::
    "Document \<Rightarrow> LoadedContent option Outcome \<Rightarrow> Load \<Rightarrow> Load" where
  "handleViewDocument_resume doc out s =
     (case (case out of
              FetchRejected e \<Rightarrow> Inl e
            | Response code j \<Rightarrow>
                if \<not> ok code then Inl (http_error code)
                else (case j of JsonRejected e \<Rightarrow> Inl e | Parsed data \<Rightarrow> Inr data)) of
        Inl error \<Rightarrow> s\<lparr>status := msg_view_error_prefix @ error_text error\<rparr>
      | Inr data \<Rightarrow>
          s\<lparr>selectedDoc := Some doc, loadedContent := data, activeTab := ''preview'',
            status := []\<rparr>)"

definition handleDeleteDocument_start :: "string \<Rightarrow> string \<Rightarrow> Request" where
  "handleDeleteDocument_start apiBaseUrl docName =
     \<lparr> method = ''DELETE'', url = apiBaseUrl @ ''/documents/'' @ docName, body = None \<rparr>"

text \<open>
  After the \<^verbatim>\<open>await\<close> the handler still reads \<^verbatim>\<open>selectedDoc\<close> from the render
  in which the button was clicked; that captured value is the argument \<open>sel\<close>. The
  setters act on the state \<open>s\<close> current when the response arrives.
\<close>

definition handleDeleteDocument_resume ::
    "string \<Rightarrow> string \<Rightarrow> Document option \<Rightarrow> unit Outcome \<Rightarrow> Load \<Rightarrow> Load \<times> Request list" where
  "handleDeleteDocument_resume apiBaseUrl docName sel out s =
     (case (case out of
              FetchRejected e \<Rightarrow> Inl e
            | Response code j \<Rightarrow> if \<not> ok code then Inl (http_error code) else Inr ()) of
        Inl error \<Rightarrow> (s\<lparr>status := msg_delete_error_prefix @ error_text error\<rparr>, [])
      | Inr _ \<Rightarrow>
          (let s1 = s\<lparr>status := msg_delete_ok\<rparr>
           in ((case sel of
                  None \<Rightarrow> s1
                | Some d \<Rightarrow>
                    if Document.name d = docName
                    then s1\<lparr>selectedDoc := None, loadedContent := None\<rparr>
                    else s1),
               [fetchDocuments_request apiBaseUrl])))"

definition handleDeleteDocument ::
    "string \<Rightarrow> string \<Rightarrow> Load \<Rightarrow> unit Outcome \<Rightarrow> Load \<times> Request list" where
  \<comment> \<open>one whole delete with no other event in between\<close>
  "handleDeleteDocument apiBaseUrl docName s out =
     (let (s', more) = handleDeleteDocument_resume apiBaseUrl docName (selectedDoc s) out s
      in (s', handleDeleteDocument_start apiBaseUrl docName # more))"

subsection \<open>Rendering the right panel\<close>

text \<open>
  What a render puts on the page is a sequence of pieces: a string, shown as it is, or a
  number, shown by the text JavaScript gives it. Nothing is shown for \<^verbatim>\<open>undefined\<close>,
  \<^verbatim>\<open>null\<close>, \<^verbatim>\<open>false\<close> and the empty string. \<open>or_str\<close> and \<open>or_num\<close> are
  \<^verbatim>\<open>x || d\<close>; \<open>and_str\<close> and \<open>and_num\<close> are \<^verbatim>\<open>x && f(x)\<close>, where a number 0 is
  falsy and is itself what gets shown.
\<close>

datatype Piece = Text string | Num int

definition or_str :: "string option \<Rightarrow> string \<Rightarrow> Piece" where
  "or_str x d = (case x of None \<Rightarrow> Text d | Some v \<Rightarrow> if v = [] then Text d else Text v)"

definition or_num :: "int option \<Rightarrow> string \<Rightarrow> Piece" where
  "or_num x d = (case x of None \<Rightarrow> Text d | Some n \<Rightarrow> if n = 0 then Text d else Num n)"

definition and_str :: "string option \<Rightarrow> (string \<Rightarrow> Piece list) \<Rightarrow> Piece list" where
  "and_str x f = (case x of None \<Rightarrow> [] | Some v \<Rightarrow> if v = [] then [] else f v)"

definition and_num :: "int option \<Rightarrow> (int \<Rightarrow> Piece list) \<Rightarrow> Piece list" where
  "and_num x f = (case x of None \<Rightarrow> [] | Some n \<Rightarrow> if n = 0 then [Num 0] else f n)"

definition shown_str :: "string option \<Rightarrow> Piece list" where
  "shown_str x = (case x of None \<Rightarrow> [] | Some v \<Rightarrow> [Text v])"

definition shown_num :: "int option \<Rightarrow> Piece list" where
  "shown_num x = (case x of None \<Rightarrow> [] | Some n \<Rightarrow> [Num n])"

definition lbl_chunk :: string where
  \<comment> \<open>Chunk; UTF-8 of U+5206 U+5757\<close>
  "lbl_chunk =
     [CHR 0xE5, CHR 0x88, CHR 0x86, CHR 0xE5, CHR 0x9D, CHR 0x97] @ '' ''"

definition lbl_page_open :: string where
  \<comment> \<open>(page; UTF-8 of U+9875\<close>
  "lbl_page_open =
     ''('' @ [CHR 0xE9, CHR 0xA1, CHR 0xB5] @ '' ''"

definition lbl_word_count :: string where
  \<comment> \<open>word count; UTF-8 of U+8BCD U+6570\<close>
  "lbl_word_count =
     [CHR 0xE8, CHR 0xAF, CHR 0x8D, CHR 0xE6, CHR 0x95, CHR 0xB0] @ '': ''"

definition lbl_page_range :: string where
  \<comment> \<open>page range; UTF-8 of U+9875 U+7801 U+8303 U+56F4\<close>
  "lbl_page_range =
     ''| '' @ [CHR 0xE9, CHR 0xA1, CHR 0xB5, CHR 0xE7, CHR 0xA0, CHR 0x81, CHR 0xE8,
     CHR 0x8C, CHR 0x83, CHR 0xE5, CHR 0x9B, CHR 0xB4] @ '': ''"

definition lbl_document_type :: string where
  \<comment> \<open>document type; UTF-8 of U+6587 U+6863 U+7C7B U+578B\<close>
  "lbl_document_type =
     [CHR 0xE6, CHR 0x96, CHR 0x87, CHR 0xE6, CHR 0xA1, CHR 0xA3, CHR 0xE7, CHR 0xB1,
     CHR 0xBB, CHR 0xE5, CHR 0x9E, CHR 0x8B] @ '': ''"

definition lbl_pages :: string where
  \<comment> \<open>pages; UTF-8 of U+9875 U+6570\<close>
  "lbl_pages =
     [CHR 0xE9, CHR 0xA1, CHR 0xB5, CHR 0xE6, CHR 0x95, CHR 0xB0] @ '': ''"

definition lbl_chunks :: string where
  \<comment> \<open>number of chunks; UTF-8 of U+5206 U+5757 U+6570\<close>
  "lbl_chunks =
     [CHR 0xE5, CHR 0x88, CHR 0x86, CHR 0xE5, CHR 0x9D, CHR 0x97, CHR 0xE6, CHR 0x95,
     CHR 0xB0] @ '': ''"

definition lbl_loading_method :: string where
  \<comment> \<open>loading method; UTF-8 of U+52A0 U+8F7D U+65B9 U+6CD5\<close>
  "lbl_loading_method =
     [CHR 0xE5, CHR 0x8A, CHR 0xA0, CHR 0xE8, CHR 0xBD, CHR 0xBD, CHR 0xE6, CHR 0x96,
     CHR 0xB9, CHR 0xE6, CHR 0xB3, CHR 0x95] @ '': ''"

definition lbl_chunking_method :: string where
  \<comment> \<open>chunking method; UTF-8 of U+5206 U+5757 U+65B9 U+6CD5\<close>
  "lbl_chunking_method =
     [CHR 0xE5, CHR 0x88, CHR 0x86, CHR 0xE5, CHR 0x9D, CHR 0x97, CHR 0xE6, CHR 0x96,
     CHR 0xB9, CHR 0xE6, CHR 0xB3, CHR 0x95] @ '': ''"

definition lbl_processed_at :: string where
  \<comment> \<open>processing date; UTF-8 of U+5904 U+7406 U+65E5 U+671F\<close>
  "lbl_processed_at =
     [CHR 0xE5, CHR 0xA4, CHR 0x84, CHR 0xE7, CHR 0x90, CHR 0x86, CHR 0xE6, CHR 0x97,
     CHR 0xA5, CHR 0xE6, CHR 0x9C, CHR 0x9F] @ '': ''"

definition lbl_unknown :: string where
  \<comment> \<open>unknown; UTF-8 of U+672A U+77E5\<close>
  "lbl_unknown =
     [CHR 0xE6, CHR 0x9C, CHR 0xAA, CHR 0xE7, CHR 0x9F, CHR 0xA5]"

definition lbl_created_at :: string where
  \<comment> \<open>created at; UTF-8 of U+521B U+5EFA U+65F6 U+95F4\<close>
  "lbl_created_at =
     [CHR 0xE5, CHR 0x88, CHR 0x9B, CHR 0xE5, CHR 0xBB, CHR 0xBA, CHR 0xE6, CHR 0x97,
     CHR 0xB6, CHR 0xE9, CHR 0x97, CHR 0xB4] @ '': ''"

definition lbl_no_documents :: string where
  \<comment> \<open>No documents available; UTF-8 of U+6CA1 U+6709 U+53EF U+7528 U+7684 U+6587 U+6863\<close>
  "lbl_no_documents =
     [CHR 0xE6, CHR 0xB2, CHR 0xA1, CHR 0xE6, CHR 0x9C, CHR 0x89, CHR 0xE5, CHR 0x8F,
     CHR 0xAF, CHR 0xE7, CHR 0x94, CHR 0xA8, CHR 0xE7, CHR 0x9A, CHR 0x84, CHR 0xE6,
     CHR 0x96, CHR 0x87, CHR 0xE6, CHR 0xA1, CHR 0xA3]"

definition img_load_hint :: string where
  \<comment> \<open>Upload and load a file or pick an existing document to see the result here; UTF-8 of U+4E0A U+4F20 U+5E76 U+52A0 U+8F7D U+6587 U+4EF6 U+6216 U+9009 U+62E9 U+73B0 U+6709 U+6587 U+6863 U+4EE5 U+5728 U+6B64 U+5904 U+67E5 U+770B U+7ED3 U+679C\<close>
  "img_load_hint =
     [CHR 0xE4, CHR 0xB8, CHR 0x8A, CHR 0xE4, CHR 0xBC, CHR 0xA0, CHR 0xE5, CHR 0xB9,
     CHR 0xB6, CHR 0xE5, CHR 0x8A, CHR 0xA0, CHR 0xE8, CHR 0xBD, CHR 0xBD, CHR 0xE6,
     CHR 0x96, CHR 0x87, CHR 0xE4, CHR 0xBB, CHR 0xB6, CHR 0xE6, CHR 0x88, CHR 0x96,
     CHR 0xE9, CHR 0x80, CHR 0x89, CHR 0xE6, CHR 0x8B, CHR 0xA9, CHR 0xE7, CHR 0x8E,
     CHR 0xB0, CHR 0xE6, CHR 0x9C, CHR 0x89, CHR 0xE6, CHR 0x96, CHR 0x87, CHR 0xE6,
     CHR 0xA1, CHR 0xA3, CHR 0xE4, CHR 0xBB, CHR 0xA5, CHR 0xE5, CHR 0x9C, CHR 0xA8,
     CHR 0xE6, CHR 0xAD, CHR 0xA4, CHR 0xE5, CHR 0xA4, CHR 0x84, CHR 0xE6, CHR 0x9F,
     CHR 0xA5, CHR 0xE7, CHR 0x9C, CHR 0x8B, CHR 0xE7, CHR 0xBB, CHR 0x93, CHR 0xE6,
     CHR 0x9E, CHR 0x9C]"

record ChunkBlock =
  heading :: "Piece list"
  details :: "Piece list"
  shown :: "Piece list"

definition chunk_meta :: "Chunk \<Rightarrow> (ChunkMetadata \<Rightarrow> 'a option) \<Rightarrow> 'a option" where
  \<comment> \<open>\<^verbatim>\<open>chunk.metadata?.field\<close>\<close>
  "chunk_meta c field = (case Chunk.metadata c of None \<Rightarrow> None | Some m \<Rightarrow> field m)"

definition renderChunk :: "nat \<Rightarrow> Chunk \<Rightarrow> ChunkBlock" where
  \<comment> \<open>the callback of \<^verbatim>\<open>chunks?.map((chunk, index) => ...)\<close>; the React key is not output\<close>
  "renderChunk index c =
     \<lparr> heading =
         [Text lbl_chunk,
          (case chunk_meta c chunk_id of
             None \<Rightarrow> Num (int index + 1)
           | Some v \<Rightarrow> if v = [] then Num (int index + 1) else Text v)]
         @ and_num (chunk_meta c page_number) (\<lambda>n. [Text lbl_page_open, Num n, Text '')'']),
       details =
         and_num (chunk_meta c word_count) (\<lambda>n. [Text lbl_word_count, Num n])
         @ and_str (chunk_meta c page_range) (\<lambda>r. [Text lbl_page_range, Text r]),
       shown =
         (case Chunk.content c of
            None \<Rightarrow> shown_str (Chunk.text c)
          | Some v \<Rightarrow> if v = [] then shown_str (Chunk.text c) else [Text v]) \<rparr>"

record Preview =
  info :: "Piece list list"
  blocks :: "ChunkBlock list"

definition renderPreview :: "(string \<Rightarrow> string) \<Rightarrow> LoadedContent \<Rightarrow> Preview" where
  \<comment> \<open>\<open>toLocaleString\<close> stands for \<^verbatim>\<open>new Date(t).toLocaleString()\<close>\<close>
  "renderPreview toLocaleString lc =
     \<lparr> info =
         [[Text lbl_document_type, or_str (LoadedContent.document_type lc) ''N/A''],
          [Text lbl_pages, or_num (LoadedContent.total_pages lc) ''N/A''],
          [Text lbl_chunks, or_num (LoadedContent.total_chunks lc) ''N/A''],
          [Text lbl_loading_method, or_str (LoadedContent.loading_method lc) ''N/A''],
          [Text lbl_chunking_method, or_str (LoadedContent.chunking_method lc) ''N/A''],
          [Text lbl_processed_at,
           (case LoadedContent.timestamp lc of
              None \<Rightarrow> Text ''N/A''
            | Some t \<Rightarrow> if t = [] then Text ''N/A'' else Text (toLocaleString t))]],
       blocks =
         (case chunks lc of
            None \<Rightarrow> []
          | Some cs \<Rightarrow> map (\<lambda>(index, c). renderChunk index c) (enumerate 0 cs)) \<rparr>"

record DocumentCard =
  title :: string
  lines :: "Piece list list"

definition doc_meta :: "Document \<Rightarrow> (DocumentMetadata \<Rightarrow> 'a option) \<Rightarrow> 'a option" where
  \<comment> \<open>\<^verbatim>\<open>doc.metadata?.field\<close>\<close>
  "doc_meta d field = (case Document.metadata d of None \<Rightarrow> None | Some m \<Rightarrow> field m)"

definition renderDocument :: "(string \<Rightarrow> string) \<Rightarrow> Document \<Rightarrow> DocumentCard" where
  "renderDocument toLocaleString d =
     \<lparr> title = Document.name d,
       lines =
         [[Text lbl_document_type,
           or_str (doc_meta d DocumentMetadata.document_type) lbl_unknown],
          [Text lbl_pages, or_num (doc_meta d DocumentMetadata.total_pages) ''N/A''],
          [Text lbl_chunks, or_num (doc_meta d DocumentMetadata.total_chunks) ''N/A''],
          [Text lbl_loading_method,
           or_str (doc_meta d DocumentMetadata.loading_method) ''N/A''],
          [Text lbl_chunking_method,
           or_str (doc_meta d DocumentMetadata.chunking_method) ''N/A''],
          [Text lbl_created_at,
           (case doc_meta d DocumentMetadata.timestamp of
              None \<Rightarrow> Text ''N/A''
            | Some t \<Rightarrow> if t = [] then Text ''N/A'' else Text (toLocaleString t))]] \<rparr>"

datatype RightPanel =
    PreviewPanel Preview
  | RandomImage string
  | DocumentsPanel "DocumentCard list" "string option"

definition renderRightPanel ::
    "(string \<Rightarrow> string) \<Rightarrow> Load \<Rightarrow> RenderError + RightPanel" where
  \<comment> \<open>\<^verbatim>\<open>documents.map\<close> has no guard: on \<^verbatim>\<open>undefined\<close> it throws\<close>
  "renderRightPanel toLocaleString s =
     (if activeTab s = ''preview'' then
        (case loadedContent s of
           Some lc \<Rightarrow> Inr (PreviewPanel (renderPreview toLocaleString lc))
         | None \<Rightarrow> Inr (RandomImage img_load_hint))
      else
        (case documents s of
           None \<Rightarrow> Inl TypeError
         | Some docs \<Rightarrow>
             Inr (DocumentsPanel (map (renderDocument toLocaleString) docs)
                    (if length docs = 0 then Some lbl_no_documents else None))))"

section \<open>The parse page (ParseFile.tsx)\<close>

subsection \<open>Payloads and state\<close>

record ParsedMetadata =
  total_pages :: "int option"
  parsing_method :: "string option"
  timestamp :: "string option"
  file_type :: "string option"

record ItemMetadata =
  content_type :: "string option"
  image_id :: "string option"
  extraction_method :: "string option"
  table_id :: "string option"
  rows :: "int option"
  columns :: "int option"

record ContentItem =
  type :: "string option"
  content :: "string option"
  page :: "int option"
  title :: "string option"
  metadata :: "ItemMetadata option"

record ParsedContent =
  metadata :: "ParsedMetadata option"
  content :: "ContentItem list option"

record Parse =
  "file" :: "File option"
  fileType :: string
  loadingMethod :: string
  parsingOption :: string
  extractImages :: bool
  extractTables :: bool
  parsedContent :: "ParsedContent option"
  status :: string
  docName :: string
  isProcessed :: bool

definition ParseFile_init :: Parse where
  "ParseFile_init =
     \<lparr> file = None, fileType = ''pdf'', loadingMethod = ''pymupdf'',
       parsingOption = ''comprehensive'', extractImages = True, extractTables = True,
       parsedContent = None, status = [], docName = [], isProcessed = False \<rparr>"

subsection \<open>File selection and the effect on fileType\<close>

definition ParseFile_fileTypeEffect :: "Parse \<Rightarrow> Parse" where
  \<comment> \<open>body of the \<^verbatim>\<open>useEffect\<close> with dependency \<^verbatim>\<open>[fileType]\<close>\<close>
  "ParseFile_fileTypeEffect s =
     (if Parse.fileType s = ''pdf'' then s\<lparr>Parse.loadingMethod := ''pymupdf''\<rparr>
      else if Parse.fileType s = ''markdown'' \<or> Parse.fileType s = ''md'' then
        s\<lparr>Parse.loadingMethod := ''basic''\<rparr>
      else if Parse.fileType s = ''txt'' then s\<lparr>Parse.loadingMethod := ''basic''\<rparr>
      else s)"

definition handleFileSelect ::
    "(string \<Rightarrow> string) \<Rightarrow> File list option \<Rightarrow> Parse \<Rightarrow> Parse" where
  "handleFileSelect toLowerCase files s =
     (case files of
        None \<Rightarrow> s
      | Some [] \<Rightarrow> s
      | Some (selectedFile # _) \<Rightarrow>
          (let s1 = s\<lparr>Parse.file := Some selectedFile\<rparr>;
               fileName = toLowerCase (File.name selectedFile);
               s2 = (if endsWith fileName ''.pdf'' then s1\<lparr>Parse.fileType := ''pdf''\<rparr>
                     else if endsWith fileName ''.md'' \<or> endsWith fileName ''.markdown'' then
                       s1\<lparr>Parse.fileType := ''markdown''\<rparr>
                     else if endsWith fileName ''.txt'' then s1\<lparr>Parse.fileType := ''txt''\<rparr>
                     else s1\<lparr>Parse.fileType := ''pdf''\<rparr>);
               baseName = split_first fileName
           in s2\<lparr>docName := baseName\<rparr>))"

definition ParseFile_select ::
    "(string \<Rightarrow> string) \<Rightarrow> File list option \<Rightarrow> Parse \<Rightarrow> Parse" where
  \<comment> \<open>the change event of the file input, followed by the render and its effect\<close>
  "ParseFile_select toLowerCase files s =
     (let s' = handleFileSelect toLowerCase files s
      in if Parse.fileType s' \<noteq> Parse.fileType s then ParseFile_fileTypeEffect s' else s')"

subsection \<open>The parsing options on offer\<close>

definition renderParsingOptions :: "Parse \<Rightarrow> string list" where
  \<comment> \<open>the \<^verbatim>\<open>value\<close> of each option of the select, in order\<close>
  "renderParsingOptions s =
     (if Parse.fileType s = ''pdf'' then
        [''comprehensive'', ''text_only'', ''tables_only'', ''images_only'', ''by_pages'',
         ''by_titles'', ''text_and_tables'']
      else if Parse.fileType s = ''markdown'' then
        [''comprehensive'', ''text_only'', ''tables_only'']
      else [''text_only''])"

subsection \<open>Submitting a file\<close>

definition ParseFile_formData :: "File \<Rightarrow> Parse \<Rightarrow> FormData" where
  "ParseFile_formData f s =
     [(''file'', FileValue f),
      (''loading_method'', TextValue (Parse.loadingMethod s)),
      (''parsing_option'', TextValue (parsingOption s)),
      (''file_type'', TextValue (Parse.fileType s)),
      (''extract_images'', TextValue (String_bool (extractImages s))),
      (''extract_tables'', TextValue (String_bool (extractTables s)))]"

definition ParseFile_handleProcess_start :: "string \<Rightarrow> Parse \<Rightarrow> Parse \<times> Request option" where
  "ParseFile_handleProcess_start apiBaseUrl s =
     (case Parse.file s of
        None \<Rightarrow> (s\<lparr>Parse.status := msg_required\<rparr>, None)
      | Some f \<Rightarrow>
          if Parse.loadingMethod s = [] \<or> parsingOption s = [] then
            (s\<lparr>Parse.status := msg_required\<rparr>, None)
          else (s\<lparr>Parse.status := msg_processing, parsedContent := None,
                  isProcessed := False\<rparr>,
                Some \<lparr> method = ''POST'', url = apiBaseUrl @ ''/parse'',
                       body = Some (ParseFile_formData f s) \<rparr>))"

definition ParseFile_handleProcess_resume ::
    "ParsedContent option Outcome \<Rightarrow> Parse \<Rightarrow> Parse \<times> Request list" where
  "ParseFile_handleProcess_resume out s =
     (case (case out of
              FetchRejected e \<Rightarrow> Inl e
            | Response code j \<Rightarrow>
                if \<not> ok code then Inl (http_error code)
                else (case j of JsonRejected e \<Rightarrow> Inl e | Parsed data \<Rightarrow> Inr data)) of
        Inl error \<Rightarrow> (s\<lparr>Parse.status := msg_error_prefix @ error_text error\<rparr>, [])
      | Inr parsed_content \<Rightarrow>
          (s\<lparr>parsedContent := parsed_content, Parse.status := msg_parse_ok,
             isProcessed := True\<rparr>, []))"

definition ParseFile_handleProcess ::
    "string \<Rightarrow> Parse \<Rightarrow> ParsedContent option Outcome \<Rightarrow> Parse \<times> Request list" where
  \<comment> \<open>one whole submission, with the outcome the network gives to its request\<close>
  "ParseFile_handleProcess apiBaseUrl s out =
     (case ParseFile_handleProcess_start apiBaseUrl s of
        (s1, None) \<Rightarrow> (s1, [])
      | (s1, Some req) \<Rightarrow>
          (let (s2, more) = ParseFile_handleProcess_resume out s1
           in (s2, req # more)))"

subsection \<open>Rendering the result\<close>

definition lbl_image :: string where
  \<comment> \<open>image; UTF-8 of U+56FE U+50CF\<close>
  "lbl_image =
     [CHR 0xE5, CHR 0x9B, CHR 0xBE, CHR 0xE5, CHR 0x83, CHR 0x8F]"

definition lbl_table :: string where
  \<comment> \<open>table; UTF-8 of U+8868 U+683C\<close>
  "lbl_table =
     [CHR 0xE8, CHR 0xA1, CHR 0xA8, CHR 0xE6, CHR 0xA0, CHR 0xBC]"

definition lbl_text :: string where
  \<comment> \<open>text; UTF-8 of U+6587 U+672C\<close>
  "lbl_text =
     [CHR 0xE6, CHR 0x96, CHR 0x87, CHR 0xE6, CHR 0x9C, CHR 0xAC]"

definition lbl_page :: string where
  \<comment> \<open>page; UTF-8 of U+9875\<close>
  "lbl_page =
     [CHR 0xE9, CHR 0xA1, CHR 0xB5] @ '' ''"

definition lbl_file_type :: string where
  \<comment> \<open>file type; UTF-8 of U+6587 U+4EF6 U+7C7B U+578B\<close>
  "lbl_file_type =
     [CHR 0xE6, CHR 0x96, CHR 0x87, CHR 0xE4, CHR 0xBB, CHR 0xB6, CHR 0xE7, CHR 0xB1,
     CHR 0xBB, CHR 0xE5, CHR 0x9E, CHR 0x8B] @ '': ''"

definition lbl_total_pages :: string where
  \<comment> \<open>total pages; UTF-8 of U+603B U+9875 U+6570\<close>
  "lbl_total_pages =
     [CHR 0xE6, CHR 0x80, CHR 0xBB, CHR 0xE9, CHR 0xA1, CHR 0xB5, CHR 0xE6, CHR 0x95,
     CHR 0xB0] @ '': ''"

definition lbl_parsing_method :: string where
  \<comment> \<open>parsing method; UTF-8 of U+89E3 U+6790 U+65B9 U+6CD5\<close>
  "lbl_parsing_method =
     [CHR 0xE8, CHR 0xA7, CHR 0xA3, CHR 0xE6, CHR 0x9E, CHR 0x90, CHR 0xE6, CHR 0x96,
     CHR 0xB9, CHR 0xE6, CHR 0xB3, CHR 0x95] @ '': ''"

definition lbl_timestamp :: string where
  \<comment> \<open>timestamp; UTF-8 of U+65F6 U+95F4 U+6233\<close>
  "lbl_timestamp =
     [CHR 0xE6, CHR 0x97, CHR 0xB6, CHR 0xE9, CHR 0x97, CHR 0xB4, CHR 0xE6, CHR 0x88,
     CHR 0xB3] @ '': ''"

definition lbl_image_id :: string where
  \<comment> \<open>image id; UTF-8 of U+56FE U+50CF\<close>
  "lbl_image_id =
     [CHR 0xE5, CHR 0x9B, CHR 0xBE, CHR 0xE5, CHR 0x83, CHR 0x8F] @ ''ID: ''"

definition lbl_extraction_method :: string where
  \<comment> \<open>extraction method; UTF-8 of U+63D0 U+53D6 U+65B9 U+6CD5\<close>
  "lbl_extraction_method =
     '', '' @ [CHR 0xE6, CHR 0x8F, CHR 0x90, CHR 0xE5, CHR 0x8F, CHR 0x96, CHR 0xE6,
     CHR 0x96, CHR 0xB9, CHR 0xE6, CHR 0xB3, CHR 0x95] @ '': ''"

definition lbl_table_id :: string where
  \<comment> \<open>table id; UTF-8 of U+8868 U+683C\<close>
  "lbl_table_id =
     [CHR 0xE8, CHR 0xA1, CHR 0xA8, CHR 0xE6, CHR 0xA0, CHR 0xBC] @ ''ID: ''"

definition lbl_rows :: string where
  \<comment> \<open>rows; UTF-8 of U+884C U+6570\<close>
  "lbl_rows =
     '', '' @ [CHR 0xE8, CHR 0xA1, CHR 0x8C, CHR 0xE6, CHR 0x95, CHR 0xB0] @ '': ''"

definition lbl_columns :: string where
  \<comment> \<open>columns; UTF-8 of U+5217 U+6570\<close>
  "lbl_columns =
     '', '' @ [CHR 0xE5, CHR 0x88, CHR 0x97, CHR 0xE6, CHR 0x95, CHR 0xB0] @ '': ''"

definition img_parse_hint :: string where
  \<comment> \<open>Upload and parse a file to see the result here; UTF-8 of U+4E0A U+4F20 U+5E76 U+89E3 U+6790 U+6587 U+4EF6 U+4EE5 U+5728 U+6B64 U+5904 U+67E5 U+770B U+7ED3 U+679C\<close>
  "img_parse_hint =
     [CHR 0xE4, CHR 0xB8, CHR 0x8A, CHR 0xE4, CHR 0xBC, CHR 0xA0, CHR 0xE5, CHR 0xB9,
     CHR 0xB6, CHR 0xE8, CHR 0xA7, CHR 0xA3, CHR 0xE6, CHR 0x9E, CHR 0x90, CHR 0xE6,
     CHR 0x96, CHR 0x87, CHR 0xE4, CHR 0xBB, CHR 0xB6, CHR 0xE4, CHR 0xBB, CHR 0xA5,
     CHR 0xE5, CHR 0x9C, CHR 0xA8, CHR 0xE6, CHR 0xAD, CHR 0xA4, CHR 0xE5, CHR 0xA4,
     CHR 0x84, CHR 0xE6, CHR 0x9F, CHR 0xA5, CHR 0xE7, CHR 0x9C, CHR 0x8B, CHR 0xE7,
     CHR 0xBB, CHR 0x93, CHR 0xE6, CHR 0x9E, CHR 0x9C]"

record ItemBlock =
  heading :: "Piece list"
  headline :: "string option"
  shown :: "Piece list"
  footer :: "Piece list list"

definition item_meta :: "ContentItem \<Rightarrow> (ItemMetadata \<Rightarrow> 'a option) \<Rightarrow> 'a option" where
  \<comment> \<open>\<^verbatim>\<open>item.metadata?.field\<close>\<close>
  "item_meta i field = (case ContentItem.metadata i of None \<Rightarrow> None | Some m \<Rightarrow> field m)"

definition renderItem :: "ContentItem \<Rightarrow> ItemBlock" where
  \<comment> \<open>the callback of \<^verbatim>\<open>content.map((item, idx) => ...)\<close>\<close>
  "renderItem i =
     \<lparr> heading =
         [Text (if type i = Some ''image'' then lbl_image
                else if type i = Some ''table'' then lbl_table else lbl_text),
          Text '' -'']
         @ and_num (page i) (\<lambda>n. [Text lbl_page, Num n])
         @ and_str (item_meta i content_type) (\<lambda>t. [Text '' - '', Text t]),
       headline =
         (case title i of None \<Rightarrow> None | Some t \<Rightarrow> if t = [] then None else Some t),
       shown = shown_str (ContentItem.content i),
       footer =
         (case ContentItem.metadata i of
            None \<Rightarrow> []
          | Some m \<Rightarrow>
              (if type i = Some ''image'' then
                 [[Text lbl_image_id] @ shown_str (image_id m)
                  @ [Text lbl_extraction_method] @ shown_str (extraction_method m)]
               else [])
              @ (if type i = Some ''table'' then
                   [[Text lbl_table_id] @ shown_str (table_id m)
                    @ [Text lbl_rows] @ shown_num (rows m)
                    @ [Text lbl_columns] @ shown_num (columns m)]
                 else [])) \<rparr>"

record ParsedView =
  info :: "Piece list list"
  blocks :: "ItemBlock list"

definition parsed_meta :: "ParsedContent \<Rightarrow> (ParsedMetadata \<Rightarrow> 'a option) \<Rightarrow> 'a option" where
  \<comment> \<open>\<^verbatim>\<open>parsedContent.metadata?.field\<close>\<close>
  "parsed_meta p field = (case ParsedContent.metadata p of None \<Rightarrow> None | Some m \<Rightarrow> field m)"

definition renderParsed ::
    "(string \<Rightarrow> string) \<Rightarrow> string \<Rightarrow> ParsedContent \<Rightarrow> RenderError + ParsedView" where
  \<comment> \<open>\<^verbatim>\<open>parsedContent.content.map\<close> has no guard: on an absent list it throws;
      \<open>shownType\<close> is the page's \<^verbatim>\<open>fileType\<close>\<close>
  "renderParsed toLocaleString shownType p =
     (case ParsedContent.content p of
        None \<Rightarrow> Inl TypeError
      | Some items \<Rightarrow>
          Inr \<lparr> info =
                  [[Text lbl_file_type, or_str (parsed_meta p file_type) shownType],
                   [Text lbl_total_pages]
                   @ shown_num (parsed_meta p ParsedMetadata.total_pages),
                   [Text lbl_parsing_method] @ shown_str (parsed_meta p parsing_method),
                   [Text lbl_timestamp]
                   @ and_str (parsed_meta p ParsedMetadata.timestamp)
                       (\<lambda>t. [Text (toLocaleString t)])],
                blocks = map renderItem items \<rparr>)"

datatype ParsePanel = ResultPanel ParsedView | ParseRandomImage string

definition ParseFile_render :: "(string \<Rightarrow> string) \<Rightarrow> Parse \<Rightarrow> RenderError + ParsePanel" where
  \<comment> \<open>the right panel of the page\<close>
  "ParseFile_render toLocaleString s =
     (case parsedContent s of
        None \<Rightarrow> Inr (ParseRandomImage img_parse_hint)
      | Some p \<Rightarrow>
          (case renderParsed toLocaleString (Parse.fileType s) p of
             Inl e \<Rightarrow> Inl e
           | Inr v \<Rightarrow> Inr (ResultPanel v)))"

section \<open>The specification's own notions\<close>

text \<open>
  File-type inference as the specification words it: the extensions are tried in a fixed
  order of precedence, the first that the name ends with gives the type, and a name that
  matches none gets the default.
\<close>

definition spec_infer :: "(string \<times> string) list \<Rightarrow> string \<Rightarrow> string \<Rightarrow> string" where
  "spec_infer table dflt fileName =
     (case find (\<lambda>(ext, t). endsWith fileName ext) table of
        None \<Rightarrow> dflt
      | Some (ext, t) \<Rightarrow> t)"

definition load_precedence :: "(string \<times> string) list" where
  "load_precedence =
     [(''.pdf'', ''pdf''), (''.txt'', ''txt''), (''.csv'', ''csv''), (''.md'', ''md''),
      (''.markdown'', ''md'')]"

definition parse_precedence :: "(string \<times> string) list" where
  "parse_precedence =
     [(''.pdf'', ''pdf''), (''.md'', ''markdown''), (''.markdown'', ''markdown''),
      (''.txt'', ''txt'')]"

text \<open>The requests of one action that are POSTs.\<close>

definition posts :: "Request list \<Rightarrow> Request list" where
  "posts rs = filter (\<lambda>r. method r = ''POST'') rs"

text \<open>The names of the fields of a multipart body, in the order they were appended.\<close>

definition field_names :: "FormData \<Rightarrow> string list" where
  "field_names fd = map fst fd"


subsection \<open>Values used in examples\<close>

definition example_doc_a :: Document where
  "example_doc_a = \<lparr> Document.name = ''a.pdf'', Document.metadata = None \<rparr>"

definition example_chunk :: "string \<Rightarrow> Chunk" where
  "example_chunk t = \<lparr> Chunk.content = Some t, text = None, Chunk.metadata = None \<rparr>"

definition example_loaded :: "Chunk list option \<Rightarrow> LoadedContent" where
  "example_loaded cs =
     \<lparr> chunks = cs, LoadedContent.total_pages = None, LoadedContent.total_chunks = None,
       LoadedContent.loading_method = None, LoadedContent.chunking_method = None,
       LoadedContent.timestamp = None, LoadedContent.document_type = None \<rparr>"

definition content_of_a :: LoadedContent where
  "content_of_a = example_loaded (Some [example_chunk ''text of a''])"

definition content_of_b :: LoadedContent where
  "content_of_b = example_loaded (Some [example_chunk ''text of b''])"

text \<open>
  The load page after the list of stored documents has arrived and \<^verbatim>\<open>a.pdf\<close> has been
  opened from it.
\<close>

definition example_viewing_a :: Load where
  "example_viewing_a =
     handleViewDocument_resume example_doc_a (Response 200 (Parsed (Some content_of_a)))
       (fetchDocuments_resume (Response 200 (Parsed (Some [example_doc_a]))) LoadFile_init)"

text \<open>
  The same page after the file \<^verbatim>\<open>b.pdf\<close> has then been chosen and uploaded, the
  server answering 200 with the content of b.
\<close>

definition example_uploaded_b :: Load where
  "example_uploaded_b =
     fst (LoadFile_handleProcess ''http://localhost:8001''
            (LoadFile_select toLowerCase_ascii (Some [File ''b.pdf'' ''%PDF''])
               example_viewing_a)
            (Response 200 (Parsed (Some content_of_b))))"

definition example_parsed :: "ContentItem list option \<Rightarrow> ParsedContent" where
  "example_parsed items = \<lparr> ParsedContent.metadata = None, content = items \<rparr>"

section \<open>Properties\<close>

subsection \<open>String lemmas\<close>

lemma toLowerCase_ascii_char_idem:
  "toLowerCase_ascii_char (toLowerCase_ascii_char c) = toLowerCase_ascii_char c"
  unfolding toLowerCase_ascii_char_def Let_def by (simp add: of_char_of [where ?'a = nat])

lemma toLowerCase_ascii_idem: "toLowerCase_ascii (toLowerCase_ascii n) = toLowerCase_ascii n"
  by (simp add: toLowerCase_ascii_def toLowerCase_ascii_char_idem)

lemma endsWith_iff: "endsWith s t \<longleftrightarrow> (\<exists>p. s = p @ t)"
  unfolding endsWith_def
  by (metis add_diff_cancel_right' append_eq_conv_conj append_take_drop_id length_append
      length_drop le_add2)

lemma endsWith_last: "endsWith s t \<Longrightarrow> t \<noteq> [] \<Longrightarrow> last s = last t"
  by (auto simp: endsWith_iff)

text \<open>The five extensions end in five different characters, so no name has two of them.\<close>

lemma endsWith_pdf: "endsWith s ''.pdf'' \<Longrightarrow> last s = CHR ''f''"
  using endsWith_last [of s "''.pdf''"] by simp

lemma endsWith_txt: "endsWith s ''.txt'' \<Longrightarrow> last s = CHR ''t''"
  using endsWith_last [of s "''.txt''"] by simp

lemma endsWith_csv: "endsWith s ''.csv'' \<Longrightarrow> last s = CHR ''v''"
  using endsWith_last [of s "''.csv''"] by simp

lemma endsWith_md: "endsWith s ''.md'' \<Longrightarrow> last s = CHR ''d''"
  using endsWith_last [of s "''.md''"] by simp

lemma endsWith_markdown: "endsWith s ''.markdown'' \<Longrightarrow> last s = CHR ''n''"
  using endsWith_last [of s "''.markdown''"] by simp

subsection \<open>File-type inference\<close>

lemma handleFileChange_fileType:
  "Load.fileType (handleFileChange toLowerCase (Some (f # fs)) s) =
     spec_infer load_precedence ''other'' (toLowerCase (File.name f))"
  by (simp add: handleFileChange_def spec_infer_def load_precedence_def Let_def)

lemma handleFileSelect_fileType:
  "Parse.fileType (handleFileSelect toLowerCase (Some (f # fs)) p) =
     spec_infer parse_precedence ''pdf'' (toLowerCase (File.name f))"
  by (simp add: handleFileSelect_def spec_infer_def parse_precedence_def Let_def)

lemma spec_infer_load_range:
  "spec_infer load_precedence ''other'' n \<in> {''pdf'', ''txt'', ''csv'', ''md'', ''other''}"
  by (simp add: spec_infer_def load_precedence_def)

lemma spec_infer_parse_range:
  "spec_infer parse_precedence ''pdf'' n \<in> {''pdf'', ''markdown'', ''txt''}"
  by (simp add: spec_infer_def parse_precedence_def)

lemma handleFileChange_idem:
  "handleFileChange toLowerCase e (handleFileChange toLowerCase e s) =
     handleFileChange toLowerCase e s"
  by (simp add: handleFileChange_def Let_def split: option.splits list.splits)

lemma handleFileSelect_idem:
  "handleFileSelect toLowerCase e (handleFileSelect toLowerCase e p) =
     handleFileSelect toLowerCase e p"
  by (simp add: handleFileSelect_def Let_def split: option.splits list.splits)

lemma spec_infer_load_by_extension:
  "(endsWith l ''.pdf'' \<longrightarrow> spec_infer load_precedence ''other'' l = ''pdf'')
   \<and> (endsWith l ''.txt'' \<longrightarrow> spec_infer load_precedence ''other'' l = ''txt'')
   \<and> (endsWith l ''.csv'' \<longrightarrow> spec_infer load_precedence ''other'' l = ''csv'')
   \<and> (endsWith l ''.md'' \<or> endsWith l ''.markdown'' \<longrightarrow>
        spec_infer load_precedence ''other'' l = ''md'')"
  using endsWith_pdf [of l] endsWith_txt [of l] endsWith_csv [of l] endsWith_md [of l]
    endsWith_markdown [of l]
  by (auto simp: spec_infer_def load_precedence_def)

lemma spec_infer_parse_by_extension:
  "(endsWith l ''.pdf'' \<longrightarrow> spec_infer parse_precedence ''pdf'' l = ''pdf'')
   \<and> (endsWith l ''.txt'' \<longrightarrow> spec_infer parse_precedence ''pdf'' l = ''txt'')
   \<and> (endsWith l ''.md'' \<or> endsWith l ''.markdown'' \<longrightarrow>
        spec_infer parse_precedence ''pdf'' l = ''markdown'')"
  using endsWith_pdf [of l] endsWith_txt [of l] endsWith_md [of l] endsWith_markdown [of l]
  by (auto simp: spec_infer_def parse_precedence_def)

text \<open>
  Claim C1, as the code has it. On the load page the type set by a file selection
  depends on the file's name only, is the first match of the lowercased name in the order
  pdf, txt, csv,
  md/markdown, is one of pdf, txt, csv, md, other, and is other when nothing matches. On
  the parse page the order is pdf, md/markdown, txt, the type for md and markdown is
  markdown, and a name that matches nothing gets pdf; the result is one of pdf, markdown,
  txt. On both pages selecting the same file again changes nothing.
\<close>

theorem file_type_inference:
  "Load.fileType (handleFileChange toLowerCase (Some (f # fs)) s) =
     spec_infer load_precedence ''other'' (toLowerCase (File.name f))
   \<and> Load.fileType (handleFileChange toLowerCase (Some (f # fs)) s)
       \<in> {''pdf'', ''txt'', ''csv'', ''md'', ''other''}
   \<and> handleFileChange toLowerCase e (handleFileChange toLowerCase e s)
       = handleFileChange toLowerCase e s
   \<and> Parse.fileType (handleFileSelect toLowerCase (Some (f # fs)) p) =
       spec_infer parse_precedence ''pdf'' (toLowerCase (File.name f))
   \<and> Parse.fileType (handleFileSelect toLowerCase (Some (f # fs)) p) \<in> {''pdf'', ''markdown'', ''txt''}
   \<and> handleFileSelect toLowerCase e (handleFileSelect toLowerCase e p)
       = handleFileSelect toLowerCase e p"
  using handleFileChange_fileType [of toLowerCase f fs s]
    handleFileSelect_fileType [of toLowerCase f fs p]
    spec_infer_load_range [of "toLowerCase (File.name f)"]
    spec_infer_parse_range [of "toLowerCase (File.name f)"]
    handleFileChange_idem [of toLowerCase e s] handleFileSelect_idem [of toLowerCase e p]
  by simp

text \<open>
  The theorem at the names \<^verbatim>\<open>data.csv\<close> and \<^verbatim>\<open>archive.zip\<close>: csv and other on the
  load page, pdf both times on the parse page.
\<close>

theorem file_type_inference_witness:
  "Load.fileType (handleFileChange toLowerCase_ascii (Some [File ''data.csv'' []]) LoadFile_init) = ''csv''
   \<and> Load.fileType (handleFileChange toLowerCase_ascii (Some [File ''archive.zip'' []]) LoadFile_init) = ''other''
   \<and> Parse.fileType (handleFileSelect toLowerCase_ascii (Some [File ''data.csv'' []]) ParseFile_init) = ''pdf''"
proof -
  have a: "spec_infer load_precedence ''other'' (toLowerCase_ascii ''data.csv'') = ''csv''"
    by code_simp
  have b: "spec_infer load_precedence ''other'' (toLowerCase_ascii ''archive.zip'') = ''other''"
    by code_simp
  have c: "spec_infer parse_precedence ''pdf'' (toLowerCase_ascii ''data.csv'') = ''pdf''"
    by code_simp
  show ?thesis
    using file_type_inference [of toLowerCase_ascii "File ''data.csv'' []" "[]"
        LoadFile_init None ParseFile_init]
      file_type_inference [of toLowerCase_ascii "File ''archive.zip'' []" "[]"
        LoadFile_init None ParseFile_init]
      a b c
    by simp
qed

text \<open>
  Claim C1 as it is written fails on the parse page: for \<^verbatim>\<open>notes.md\<close> the inferred
  type is markdown, which is none of pdf, txt, csv, md, other, and the unmatched
  \<^verbatim>\<open>data.csv\<close> gets pdf, not other.
\<close>

theorem file_type_inference_counterexample:
  "Parse.fileType (handleFileSelect toLowerCase_ascii (Some [File ''notes.md'' []]) ParseFile_init)
     \<notin> {''pdf'', ''txt'', ''csv'', ''md'', ''other''}
   \<and> Parse.fileType (handleFileSelect toLowerCase_ascii (Some [File ''data.csv'' []]) ParseFile_init)
       \<noteq> ''other''"
proof -
  have "Parse.fileType (handleFileSelect toLowerCase_ascii (Some [File ''notes.md'' []]) ParseFile_init)
          = ''markdown''"
    by code_simp
  moreover
  have "Parse.fileType (handleFileSelect toLowerCase_ascii (Some [File ''data.csv'' []]) ParseFile_init)
          = ''pdf''"
    by code_simp
  ultimately show ?thesis by simp
qed

text \<open>
  Claim C10. On both pages the name is lowercased before any extension is tested: the
  type is decided by the lowercased name alone, so two names with the same lowercase form
  get the same type, whatever the state and the rest of the selection, and a name whose
  lowercase form ends with a recognized extension gets the type of that extension. In
  particular a name gets the type of its lowercase form.
\<close>

theorem inference_case_insensitive:
  "(toLowerCase n = toLowerCase n' \<longrightarrow>
      Load.fileType (handleFileChange toLowerCase (Some (File n b # fs)) s) =
        Load.fileType (handleFileChange toLowerCase (Some (File n' b' # fs')) s')
      \<and> Parse.fileType (handleFileSelect toLowerCase (Some (File n b # fs)) p) =
          Parse.fileType (handleFileSelect toLowerCase (Some (File n' b' # fs')) p'))
   \<and> (endsWith (toLowerCase n) ''.pdf'' \<longrightarrow>
        Load.fileType (handleFileChange toLowerCase (Some (File n b # fs)) s) = ''pdf''
        \<and> Parse.fileType (handleFileSelect toLowerCase (Some (File n b # fs)) p) = ''pdf'')
   \<and> (endsWith (toLowerCase n) ''.txt'' \<longrightarrow>
        Load.fileType (handleFileChange toLowerCase (Some (File n b # fs)) s) = ''txt''
        \<and> Parse.fileType (handleFileSelect toLowerCase (Some (File n b # fs)) p) = ''txt'')
   \<and> (endsWith (toLowerCase n) ''.csv'' \<longrightarrow>
        Load.fileType (handleFileChange toLowerCase (Some (File n b # fs)) s) = ''csv'')
   \<and> (endsWith (toLowerCase n) ''.md'' \<or> endsWith (toLowerCase n) ''.markdown'' \<longrightarrow>
        Load.fileType (handleFileChange toLowerCase (Some (File n b # fs)) s) = ''md''
        \<and> Parse.fileType (handleFileSelect toLowerCase (Some (File n b # fs)) p)
            = ''markdown'')"
  using spec_infer_load_by_extension [of "toLowerCase n"]
    spec_infer_parse_by_extension [of "toLowerCase n"]
  by (simp add: handleFileChange_fileType handleFileSelect_fileType)

text \<open>
  The theorem at \<^verbatim>\<open>NOTES.TXT\<close>, which has the lowercase form of \<^verbatim>\<open>notes.txt\<close> and
  gets txt on both pages, where the initial type and the parse page's default are pdf;
  and at \<^verbatim>\<open>Slides.MD\<close>, which gets md on the load page and markdown on the parse page.
\<close>

theorem inference_case_insensitive_witness:
  "toLowerCase_ascii ''NOTES.TXT'' = toLowerCase_ascii ''notes.txt''
   \<and> endsWith (toLowerCase_ascii ''NOTES.TXT'') ''.txt''
   \<and> Load.fileType (handleFileChange toLowerCase_ascii (Some [File ''NOTES.TXT'' []])
        LoadFile_init) = ''txt''
   \<and> Load.fileType (handleFileChange toLowerCase_ascii (Some [File ''notes.txt'' []])
        LoadFile_init) = ''txt''
   \<and> Parse.fileType (handleFileSelect toLowerCase_ascii (Some [File ''NOTES.TXT'' []])
        ParseFile_init) = ''txt''
   \<and> Parse.fileType (handleFileSelect toLowerCase_ascii (Some [File ''notes.txt'' []])
        ParseFile_init) = ''txt''
   \<and> endsWith (toLowerCase_ascii ''Slides.MD'') ''.md''
   \<and> Load.fileType (handleFileChange toLowerCase_ascii (Some [File ''Slides.MD'' []])
        LoadFile_init) = ''md''
   \<and> Parse.fileType (handleFileSelect toLowerCase_ascii (Some [File ''Slides.MD'' []])
        ParseFile_init) = ''markdown''"
proof -
  have l: "toLowerCase_ascii ''NOTES.TXT'' = toLowerCase_ascii ''notes.txt''"
    by code_simp
  have t: "endsWith (toLowerCase_ascii ''NOTES.TXT'') ''.txt''"
    by code_simp
  have m: "endsWith (toLowerCase_ascii ''Slides.MD'') ''.md''"
    by code_simp
  note upper = inference_case_insensitive [of toLowerCase_ascii "''NOTES.TXT''"
      "''notes.txt''" "[]" "[]" LoadFile_init "[]" "[]" LoadFile_init ParseFile_init
      ParseFile_init]
  note mixed = inference_case_insensitive [of toLowerCase_ascii "''Slides.MD''"
      "''Slides.MD''" "[]" "[]" LoadFile_init "[]" "[]" LoadFile_init ParseFile_init
      ParseFile_init]
  from upper l
  have same: "Load.fileType (handleFileChange toLowerCase_ascii (Some [File ''NOTES.TXT'' []])
                LoadFile_init) =
              Load.fileType (handleFileChange toLowerCase_ascii (Some [File ''notes.txt'' []])
                LoadFile_init)
              \<and> Parse.fileType (handleFileSelect toLowerCase_ascii
                    (Some [File ''NOTES.TXT'' []]) ParseFile_init) =
                  Parse.fileType (handleFileSelect toLowerCase_ascii
                    (Some [File ''notes.txt'' []]) ParseFile_init)"
    by blast
  from upper t
  have upper_txt: "Load.fileType (handleFileChange toLowerCase_ascii (Some [File ''NOTES.TXT'' []])
               LoadFile_init) = ''txt''
             \<and> Parse.fileType (handleFileSelect toLowerCase_ascii
                   (Some [File ''NOTES.TXT'' []]) ParseFile_init) = ''txt''"
    by blast
  from mixed m
  have mixed_md: "Load.fileType (handleFileChange toLowerCase_ascii (Some [File ''Slides.MD'' []])
              LoadFile_init) = ''md''
            \<and> Parse.fileType (handleFileSelect toLowerCase_ascii
                  (Some [File ''Slides.MD'' []]) ParseFile_init) = ''markdown''"
    by blast
  from same upper_txt
  have lower_txt: "Load.fileType (handleFileChange toLowerCase_ascii (Some [File ''notes.txt'' []])
               LoadFile_init) = ''txt''
             \<and> Parse.fileType (handleFileSelect toLowerCase_ascii
                   (Some [File ''notes.txt'' []]) ParseFile_init) = ''txt''"
    by metis
  show ?thesis
    using l t m upper_txt mixed_md lower_txt by blast
qed

subsection \<open>Rejected submissions\<close>

lemma msg_required_nonempty: "msg_required \<noteq> []"
  by (simp add: msg_required_def)

lemma LoadFile_start_rejected:
  "Load.file s = None \<or> Load.loadingMethod s = [] \<Longrightarrow>
   LoadFile_handleProcess_start apiBaseUrl s = (s\<lparr>Load.status := msg_required\<rparr>, None)"
  by (auto simp: LoadFile_handleProcess_start_def split: option.splits)

lemma ParseFile_start_rejected:
  "Parse.file p = None \<or> Parse.loadingMethod p = [] \<or> parsingOption p = [] \<Longrightarrow>
   ParseFile_handleProcess_start apiBaseUrl p = (p\<lparr>Parse.status := msg_required\<rparr>, None)"
  by (auto simp: ParseFile_handleProcess_start_def split: option.splits)

text \<open>
  Claim C2. On both pages a submission with no file or with an empty loading method
  issues no request, whatever the network would have answered, sets the status to a
  message that is not empty, and leaves every other cell of the state as it was.
\<close>

theorem rejected_submission:
  "(Load.file s = None \<or> Load.loadingMethod s = [] \<longrightarrow>
      LoadFile_handleProcess apiBaseUrl s out = (s\<lparr>Load.status := msg_required\<rparr>, []))
   \<and> (Parse.file p = None \<or> Parse.loadingMethod p = [] \<longrightarrow>
      ParseFile_handleProcess apiBaseUrl p out' = (p\<lparr>Parse.status := msg_required\<rparr>, []))
   \<and> msg_required \<noteq> []"
  by (simp add: LoadFile_handleProcess_def ParseFile_handleProcess_def
      LoadFile_start_rejected ParseFile_start_rejected msg_required_nonempty)

text \<open>
  The theorem on the two initial states, where no file has been chosen, and with a
  server that would have answered 200.
\<close>

theorem rejected_submission_witness:
  "Load.file LoadFile_init = None
   \<and> LoadFile_handleProcess ''http://localhost:8001'' LoadFile_init (Response 200 (Parsed None))
       = (LoadFile_init\<lparr>Load.status := msg_required\<rparr>, [])
   \<and> Parse.file ParseFile_init = None
   \<and> ParseFile_handleProcess ''http://localhost:8001'' ParseFile_init (Response 200 (Parsed None))
       = (ParseFile_init\<lparr>Parse.status := msg_required\<rparr>, [])
   \<and> msg_required \<noteq> []"
proof -
  have l: "Load.file LoadFile_init = None"
    by (simp add: LoadFile_init_def)
  have p: "Parse.file ParseFile_init = None"
    by (simp add: ParseFile_init_def)
  show ?thesis
    using rejected_submission [of LoadFile_init "''http://localhost:8001''"
        "Response 200 (Parsed None)" ParseFile_init "Response 200 (Parsed None)"] l p
    by simp
qed

subsection \<open>The loading method follows the file type\<close>

lemma handleFileChange_cases:
  "handleFileChange toLowerCase e s = s
   \<or> Load.fileType (handleFileChange toLowerCase e s) = ''pdf''
       \<and> Load.loadingMethod (handleFileChange toLowerCase e s) = ''pymupdf''
   \<or> Load.fileType (handleFileChange toLowerCase e s) = ''txt''
       \<and> Load.loadingMethod (handleFileChange toLowerCase e s) = ''basic''
   \<or> Load.fileType (handleFileChange toLowerCase e s) = ''csv''
       \<and> Load.loadingMethod (handleFileChange toLowerCase e s) = ''pandas''
   \<or> Load.fileType (handleFileChange toLowerCase e s) = ''md''
       \<and> Load.loadingMethod (handleFileChange toLowerCase e s) = ''basic''
   \<or> Load.fileType (handleFileChange toLowerCase e s) = ''other''
       \<and> Load.loadingMethod (handleFileChange toLowerCase e s) = []"
  by (simp add: handleFileChange_def Let_def split: option.splits list.splits)

lemma LoadFile_fileTypeEffect_fileType:
  "Load.fileType (LoadFile_fileTypeEffect s) = Load.fileType s"
  by (simp add: LoadFile_fileTypeEffect_def)

lemma LoadFile_select_fileType:
  "Load.fileType (LoadFile_select toLowerCase e s) = Load.fileType (handleFileChange toLowerCase e s)"
  by (simp add: LoadFile_select_def Let_def LoadFile_fileTypeEffect_fileType)

lemma LoadFile_select_reset:
  assumes "Load.fileType (LoadFile_select toLowerCase e s) \<noteq> Load.fileType s"
  shows "(Load.fileType (LoadFile_select toLowerCase e s) = ''pdf'' \<longrightarrow>
            Load.loadingMethod (LoadFile_select toLowerCase e s) = ''pymupdf'')
         \<and> (Load.fileType (LoadFile_select toLowerCase e s) = ''txt''
              \<or> Load.fileType (LoadFile_select toLowerCase e s) = ''md'' \<longrightarrow>
            Load.loadingMethod (LoadFile_select toLowerCase e s) = ''basic'')
         \<and> (Load.fileType (LoadFile_select toLowerCase e s) = ''csv'' \<longrightarrow>
            Load.loadingMethod (LoadFile_select toLowerCase e s) = ''pandas'')"
proof -
  from assms have ch: "Load.fileType (handleFileChange toLowerCase e s) \<noteq> Load.fileType s"
    by (simp add: LoadFile_select_fileType)
  then have eq: "LoadFile_select toLowerCase e s = LoadFile_fileTypeEffect (handleFileChange toLowerCase e s)"
    by (simp add: LoadFile_select_def Let_def)
  show ?thesis
    unfolding eq by (simp add: LoadFile_fileTypeEffect_def)
qed

lemma handleFileSelect_range:
  "handleFileSelect toLowerCase e p = p
   \<or> Parse.fileType (handleFileSelect toLowerCase e p) \<in> {''pdf'', ''markdown'', ''txt''}"
  by (simp add: handleFileSelect_def Let_def split: option.splits list.splits)

lemma ParseFile_fileTypeEffect_fileType:
  "Parse.fileType (ParseFile_fileTypeEffect p) = Parse.fileType p"
  by (simp add: ParseFile_fileTypeEffect_def)

lemma ParseFile_select_fileType:
  "Parse.fileType (ParseFile_select toLowerCase e p) = Parse.fileType (handleFileSelect toLowerCase e p)"
  by (simp add: ParseFile_select_def Let_def ParseFile_fileTypeEffect_fileType)

lemma ParseFile_select_reset:
  assumes "Parse.fileType (ParseFile_select toLowerCase e p) \<noteq> Parse.fileType p"
  shows "(Parse.fileType (ParseFile_select toLowerCase e p) = ''pdf'' \<longrightarrow>
            Parse.loadingMethod (ParseFile_select toLowerCase e p) = ''pymupdf'')
         \<and> (Parse.fileType (ParseFile_select toLowerCase e p) = ''txt''
              \<or> Parse.fileType (ParseFile_select toLowerCase e p) = ''md''
              \<or> Parse.fileType (ParseFile_select toLowerCase e p) = ''markdown'' \<longrightarrow>
            Parse.loadingMethod (ParseFile_select toLowerCase e p) = ''basic'')
         \<and> (Parse.fileType (ParseFile_select toLowerCase e p) = ''csv'' \<longrightarrow>
            Parse.loadingMethod (ParseFile_select toLowerCase e p) = ''pandas'')
         \<and> Parse.fileType (ParseFile_select toLowerCase e p) \<in> {''pdf'', ''markdown'', ''txt''}"
proof -
  from assms have ch: "Parse.fileType (handleFileSelect toLowerCase e p) \<noteq> Parse.fileType p"
    by (simp add: ParseFile_select_fileType)
  then have eq: "ParseFile_select toLowerCase e p = ParseFile_fileTypeEffect (handleFileSelect toLowerCase e p)"
    by (simp add: ParseFile_select_def Let_def)
  from ch handleFileSelect_range [of toLowerCase e p]
  have rng: "Parse.fileType (handleFileSelect toLowerCase e p) \<in> {''pdf'', ''markdown'', ''txt''}"
    by auto
  show ?thesis
    unfolding eq using rng by (auto simp: ParseFile_fileTypeEffect_def)
qed

text \<open>
  Claim C7. The file type changes only when a file is selected. Whenever a selection
  changes it, the loading method after the render that follows is the default of the new
  type: pymupdf for pdf, basic for txt and md (markdown on the parse page), pandas for
  csv. On the parse page the new type is one of pdf, markdown, txt: no selection gives
  csv there, so the line for csv has nothing to check on that page.
\<close>

theorem loading_method_reset:
  "(Load.fileType (LoadFile_select toLowerCase e s) \<noteq> Load.fileType s \<longrightarrow>
      (Load.fileType (LoadFile_select toLowerCase e s) = ''pdf'' \<longrightarrow>
         Load.loadingMethod (LoadFile_select toLowerCase e s) = ''pymupdf'')
      \<and> (Load.fileType (LoadFile_select toLowerCase e s) = ''txt''
           \<or> Load.fileType (LoadFile_select toLowerCase e s) = ''md'' \<longrightarrow>
         Load.loadingMethod (LoadFile_select toLowerCase e s) = ''basic'')
      \<and> (Load.fileType (LoadFile_select toLowerCase e s) = ''csv'' \<longrightarrow>
         Load.loadingMethod (LoadFile_select toLowerCase e s) = ''pandas''))
   \<and> (Parse.fileType (ParseFile_select toLowerCase e' p) \<noteq> Parse.fileType p \<longrightarrow>
      (Parse.fileType (ParseFile_select toLowerCase e' p) = ''pdf'' \<longrightarrow>
         Parse.loadingMethod (ParseFile_select toLowerCase e' p) = ''pymupdf'')
      \<and> (Parse.fileType (ParseFile_select toLowerCase e' p) = ''txt''
           \<or> Parse.fileType (ParseFile_select toLowerCase e' p) = ''md''
           \<or> Parse.fileType (ParseFile_select toLowerCase e' p) = ''markdown'' \<longrightarrow>
         Parse.loadingMethod (ParseFile_select toLowerCase e' p) = ''basic'')
      \<and> (Parse.fileType (ParseFile_select toLowerCase e' p) = ''csv'' \<longrightarrow>
         Parse.loadingMethod (ParseFile_select toLowerCase e' p) = ''pandas'')
      \<and> Parse.fileType (ParseFile_select toLowerCase e' p) \<in> {''pdf'', ''markdown'', ''txt''})"
  using LoadFile_select_reset [of toLowerCase e s]
    ParseFile_select_reset [of toLowerCase e' p]
  by blast

text \<open>
  The theorem at two selections made on the initial states, where the type is pdf:
  \<^verbatim>\<open>data.csv\<close> on the load page, \<^verbatim>\<open>notes.md\<close> on the parse page.
\<close>

theorem loading_method_reset_witness:
  "Load.fileType (LoadFile_select toLowerCase_ascii (Some [File ''data.csv'' []]) LoadFile_init)
     \<noteq> Load.fileType LoadFile_init
   \<and> Load.fileType (LoadFile_select toLowerCase_ascii (Some [File ''data.csv'' []]) LoadFile_init) = ''csv''
   \<and> Load.loadingMethod (LoadFile_select toLowerCase_ascii (Some [File ''data.csv'' []]) LoadFile_init)
       = ''pandas''
   \<and> Parse.fileType (ParseFile_select toLowerCase_ascii (Some [File ''notes.md'' []]) ParseFile_init)
       \<noteq> Parse.fileType ParseFile_init
   \<and> Parse.fileType (ParseFile_select toLowerCase_ascii (Some [File ''notes.md'' []]) ParseFile_init)
       = ''markdown''
   \<and> Parse.loadingMethod (ParseFile_select toLowerCase_ascii (Some [File ''notes.md'' []]) ParseFile_init)
       = ''basic''"
proof -
  have a: "Load.fileType (LoadFile_select toLowerCase_ascii (Some [File ''data.csv'' []]) LoadFile_init)
             = ''csv''"
    by code_simp
  have b: "Load.fileType LoadFile_init = ''pdf''"
    by (simp add: LoadFile_init_def)
  have c: "Parse.fileType (ParseFile_select toLowerCase_ascii (Some [File ''notes.md'' []]) ParseFile_init)
             = ''markdown''"
    by code_simp
  have d: "Parse.fileType ParseFile_init = ''pdf''"
    by (simp add: ParseFile_init_def)
  show ?thesis
    using loading_method_reset [of toLowerCase_ascii "Some [File ''data.csv'' []]"
        LoadFile_init "Some [File ''notes.md'' []]" ParseFile_init] a b c d
    by simp
qed

subsection \<open>The body of a load request\<close>

lemma LoadFile_start_accepted:
  "Load.file s = Some f \<Longrightarrow> Load.loadingMethod s \<noteq> [] \<Longrightarrow>
   LoadFile_handleProcess_start apiBaseUrl s =
     (s\<lparr>Load.status := msg_loading, loadedContent := None\<rparr>,
      Some \<lparr> method = ''POST'', url = apiBaseUrl @ ''/load'',
             body = Some (LoadFile_formData f s) \<rparr>)"
  by (simp add: LoadFile_handleProcess_start_def)

lemma LoadFile_formData_head:
  "take 3 (LoadFile_formData f s) =
     [(''file'', FileValue f), (''file_type'', TextValue (Load.fileType s)),
      (''loading_method'', TextValue (Load.loadingMethod s))]"
  by (simp add: LoadFile_formData_def)

lemma LoadFile_formData_options:
  "field_names (drop 3 (LoadFile_formData f s)) =
     (if Load.fileType s = ''pdf'' \<and> Load.loadingMethod s = ''unstructured'' then
        [''strategy'', ''chunking_strategy'', ''chunking_options'']
      else if Load.fileType s = ''txt'' \<or> Load.fileType s = ''md'' then
        (if chunkingStrategy s = [] then [''encoding'']
         else [''encoding'', ''chunking_strategy'', ''chunking_options''])
      else if Load.fileType s = ''csv'' then [''delimiter'', ''encoding'', ''use_pandas'']
      else [])"
  by (simp add: LoadFile_formData_def field_names_def)

lemma LoadFile_formData_csv:
  "Load.fileType s = ''csv'' \<Longrightarrow>
   LoadFile_formData f s =
     [(''file'', FileValue f), (''file_type'', TextValue ''csv''),
      (''loading_method'', TextValue (Load.loadingMethod s)),
      (''delimiter'', TextValue (delimiter s)), (''encoding'', TextValue (encoding s)),
      (''use_pandas'', TextValue (String_bool (usePandas s)))]"
  by (simp add: LoadFile_formData_def)

text \<open>
  Claim C3, as the code has it. A load submission that passes validation issues a POST to
  \<^verbatim>\<open>/load\<close> whose body starts with file, file_type and loading_method and goes on with
  at most one option set: strategy, chunking_strategy and chunking_options for pdf read
  by unstructured; encoding for txt and md, followed by chunking_strategy and
  chunking_options unless the chunking strategy is empty; delimiter, encoding and
  use_pandas for csv; and nothing in every other case. A csv body is exactly the three
  leading fields, the delimiter, the encoding and use_pandas.
\<close>

theorem load_request_body:
  assumes "Load.file s = Some f" and "Load.loadingMethod s \<noteq> []"
  shows "snd (LoadFile_handleProcess_start apiBaseUrl s) =
           Some \<lparr> method = ''POST'', url = apiBaseUrl @ ''/load'',
                  body = Some (LoadFile_formData f s) \<rparr>
         \<and> take 3 (LoadFile_formData f s) =
             [(''file'', FileValue f), (''file_type'', TextValue (Load.fileType s)),
              (''loading_method'', TextValue (Load.loadingMethod s))]
         \<and> field_names (drop 3 (LoadFile_formData f s)) =
             (if Load.fileType s = ''pdf'' \<and> Load.loadingMethod s = ''unstructured'' then
                [''strategy'', ''chunking_strategy'', ''chunking_options'']
              else if Load.fileType s = ''txt'' \<or> Load.fileType s = ''md'' then
                (if chunkingStrategy s = [] then [''encoding'']
                 else [''encoding'', ''chunking_strategy'', ''chunking_options''])
              else if Load.fileType s = ''csv'' then
                [''delimiter'', ''encoding'', ''use_pandas'']
              else [])
         \<and> (Load.fileType s = ''csv'' \<longrightarrow>
              LoadFile_formData f s =
                [(''file'', FileValue f), (''file_type'', TextValue ''csv''),
                 (''loading_method'', TextValue (Load.loadingMethod s)),
                 (''delimiter'', TextValue (delimiter s)),
                 (''encoding'', TextValue (encoding s)),
                 (''use_pandas'', TextValue (String_bool (usePandas s)))]
              \<and> ''chunking_options'' \<notin> set (field_names (LoadFile_formData f s)))"
proof -
  have csv: "Load.fileType s = ''csv'' \<longrightarrow>
               ''chunking_options'' \<notin> set (field_names (LoadFile_formData f s))"
    by (simp add: LoadFile_formData_csv field_names_def)
  show ?thesis
    using assms csv LoadFile_formData_head [of f s] LoadFile_formData_options [of f s]
    by (simp add: LoadFile_start_accepted LoadFile_formData_csv)
qed

text \<open>
  The theorem at the specification's example: \<^verbatim>\<open>data.csv\<close> is selected on the initial
  state, the delimiter is set to a semicolon and the encoding to gbk.
\<close>

theorem load_request_body_witness:
  "snd (LoadFile_handleProcess_start ''http://localhost:8001''
          ((LoadFile_select toLowerCase_ascii (Some [File ''data.csv'' ''a;b'']) LoadFile_init)
             \<lparr>delimiter := '';'', encoding := ''gbk''\<rparr>)) =
     Some \<lparr> method = ''POST'', url = ''http://localhost:8001/load'',
            body = Some [(''file'', FileValue (File ''data.csv'' ''a;b'')),
                         (''file_type'', TextValue ''csv''),
                         (''loading_method'', TextValue ''pandas''),
                         (''delimiter'', TextValue '';''),
                         (''encoding'', TextValue ''gbk''),
                         (''use_pandas'', TextValue ''true'')] \<rparr>"
proof -
  let ?s = "(LoadFile_select toLowerCase_ascii (Some [File ''data.csv'' ''a;b'']) LoadFile_init)
              \<lparr>delimiter := '';'', encoding := ''gbk''\<rparr>"
  have f: "Load.file ?s = Some (File ''data.csv'' ''a;b'')"
    by code_simp
  have m: "Load.loadingMethod ?s = ''pandas''"
    by code_simp
  have t: "Load.fileType ?s = ''csv''"
    by code_simp
  have d: "delimiter ?s = '';''" "encoding ?s = ''gbk''" "usePandas ?s = True"
    by code_simp+
  show ?thesis
    using load_request_body [of ?s "File ''data.csv'' ''a;b''" "''http://localhost:8001''"]
      f m t d
    by (simp add: String_bool_def)
qed

text \<open>
  Claim C3 as it is written fails at the page's defaults: for \<^verbatim>\<open>report.pdf\<close> read by
  pymupdf the body holds the three leading fields and none of the three option sets.
\<close>

theorem load_request_body_counterexample:
  "snd (LoadFile_handleProcess_start ''http://localhost:8001''
          (LoadFile_select toLowerCase_ascii (Some [File ''report.pdf'' ''%PDF'']) LoadFile_init)) =
     Some \<lparr> method = ''POST'', url = ''http://localhost:8001/load'',
            body = Some [(''file'', FileValue (File ''report.pdf'' ''%PDF'')),
                         (''file_type'', TextValue ''pdf''),
                         (''loading_method'', TextValue ''pymupdf'')] \<rparr>"
  by code_simp

subsection \<open>One POST for each submission, and what is shown while it is under way\<close>

lemma ParseFile_start_accepted:
  "Parse.file p = Some g \<Longrightarrow> Parse.loadingMethod p \<noteq> [] \<Longrightarrow> parsingOption p \<noteq> [] \<Longrightarrow>
   ParseFile_handleProcess_start apiBaseUrl p =
     (p\<lparr>Parse.status := msg_processing, parsedContent := None, isProcessed := False\<rparr>,
      Some \<lparr> method = ''POST'', url = apiBaseUrl @ ''/parse'',
             body = Some (ParseFile_formData g p) \<rparr>)"
  by (simp add: ParseFile_handleProcess_start_def)

lemma LoadFile_resume_requests:
  "posts (snd (LoadFile_handleProcess_resume apiBaseUrl out s)) = []"
  by (simp add: LoadFile_handleProcess_resume_def posts_def fetchDocuments_request_def
      split: Outcome.splits Json.splits sum.splits)

lemma ParseFile_resume_requests:
  "snd (ParseFile_handleProcess_resume out p) = []"
  by (simp add: ParseFile_handleProcess_resume_def split: Outcome.splits Json.splits sum.splits)

lemma LoadFile_handleProcess_accepted:
  "Load.file s = Some f \<Longrightarrow> Load.loadingMethod s \<noteq> [] \<Longrightarrow>
   LoadFile_handleProcess apiBaseUrl s out =
     (fst (LoadFile_handleProcess_resume apiBaseUrl out
             (s\<lparr>Load.status := msg_loading, loadedContent := None\<rparr>)),
      \<lparr> method = ''POST'', url = apiBaseUrl @ ''/load'',
        body = Some (LoadFile_formData f s) \<rparr>
      # snd (LoadFile_handleProcess_resume apiBaseUrl out
               (s\<lparr>Load.status := msg_loading, loadedContent := None\<rparr>)))"
  by (simp add: LoadFile_handleProcess_def LoadFile_start_accepted case_prod_beta)

lemma ParseFile_handleProcess_accepted:
  "Parse.file p = Some g \<Longrightarrow> Parse.loadingMethod p \<noteq> [] \<Longrightarrow> parsingOption p \<noteq> [] \<Longrightarrow>
   ParseFile_handleProcess apiBaseUrl p out =
     (fst (ParseFile_handleProcess_resume out
             (p\<lparr>Parse.status := msg_processing, parsedContent := None,
                isProcessed := False\<rparr>)),
      [\<lparr> method = ''POST'', url = apiBaseUrl @ ''/parse'',
         body = Some (ParseFile_formData g p) \<rparr>])"
  by (simp add: ParseFile_handleProcess_def ParseFile_start_accepted ParseFile_resume_requests
      case_prod_beta)

text \<open>
  Claim C4, as the code has it. A submission that passes validation issues exactly one
  POST. By the time the request leaves, and so before any response, the page has already
  set the status to its in-progress message and cleared the previous result (on the parse
  page also the processed flag); every other cell is as it was. The cells that hold the
  result are written only by the part of the handler that runs on the outcome.
\<close>

theorem one_post_per_submission:
  "(Load.file s = Some f \<and> Load.loadingMethod s \<noteq> [] \<longrightarrow>
      fst (LoadFile_handleProcess_start apiBaseUrl s) =
        s\<lparr>Load.status := msg_loading, loadedContent := None\<rparr>
      \<and> posts (snd (LoadFile_handleProcess apiBaseUrl s out)) =
          [\<lparr> method = ''POST'', url = apiBaseUrl @ ''/load'',
             body = Some (LoadFile_formData f s) \<rparr>]
      \<and> fst (LoadFile_handleProcess apiBaseUrl s out) =
          fst (LoadFile_handleProcess_resume apiBaseUrl out
                 (s\<lparr>Load.status := msg_loading, loadedContent := None\<rparr>)))
   \<and> (Parse.file p = Some g \<and> Parse.loadingMethod p \<noteq> [] \<and> parsingOption p \<noteq> [] \<longrightarrow>
      fst (ParseFile_handleProcess_start apiBaseUrl p) =
        p\<lparr>Parse.status := msg_processing, parsedContent := None, isProcessed := False\<rparr>
      \<and> posts (snd (ParseFile_handleProcess apiBaseUrl p out')) =
          [\<lparr> method = ''POST'', url = apiBaseUrl @ ''/parse'',
             body = Some (ParseFile_formData g p) \<rparr>]
      \<and> snd (ParseFile_handleProcess apiBaseUrl p out') =
          [\<lparr> method = ''POST'', url = apiBaseUrl @ ''/parse'',
             body = Some (ParseFile_formData g p) \<rparr>]
      \<and> fst (ParseFile_handleProcess apiBaseUrl p out') =
          fst (ParseFile_handleProcess_resume out'
                 (p\<lparr>Parse.status := msg_processing, parsedContent := None,
                    isProcessed := False\<rparr>)))"
  by (simp add: LoadFile_handleProcess_accepted ParseFile_handleProcess_accepted
      LoadFile_start_accepted ParseFile_start_accepted
      LoadFile_resume_requests [unfolded posts_def] posts_def)

text \<open>
  The theorem at \<^verbatim>\<open>report.pdf\<close>, selected on the initial state of each page and
  submitted to a server that answers 200 with an empty payload.
\<close>

theorem one_post_per_submission_witness:
  "Load.file (LoadFile_select toLowerCase_ascii (Some [File ''report.pdf'' ''%PDF'']) LoadFile_init)
     = Some (File ''report.pdf'' ''%PDF'')
   \<and> Load.loadingMethod (LoadFile_select toLowerCase_ascii (Some [File ''report.pdf'' ''%PDF'']) LoadFile_init)
       = ''pymupdf''
   \<and> length (posts (snd (LoadFile_handleProcess ''http://localhost:8001''
        (LoadFile_select toLowerCase_ascii (Some [File ''report.pdf'' ''%PDF'']) LoadFile_init)
        (Response 200 (Parsed None))))) = 1
   \<and> Parse.file (ParseFile_select toLowerCase_ascii (Some [File ''report.pdf'' ''%PDF'']) ParseFile_init)
       = Some (File ''report.pdf'' ''%PDF'')
   \<and> Parse.loadingMethod (ParseFile_select toLowerCase_ascii (Some [File ''report.pdf'' ''%PDF'']) ParseFile_init)
       = ''pymupdf''
   \<and> parsingOption (ParseFile_select toLowerCase_ascii (Some [File ''report.pdf'' ''%PDF'']) ParseFile_init)
       = ''comprehensive''
   \<and> length (snd (ParseFile_handleProcess ''http://localhost:8001''
        (ParseFile_select toLowerCase_ascii (Some [File ''report.pdf'' ''%PDF'']) ParseFile_init)
        (Response 200 (Parsed None)))) = 1"
proof -
  let ?s = "LoadFile_select toLowerCase_ascii (Some [File ''report.pdf'' ''%PDF'']) LoadFile_init"
  let ?p = "ParseFile_select toLowerCase_ascii (Some [File ''report.pdf'' ''%PDF'']) ParseFile_init"
  have a: "Load.file ?s = Some (File ''report.pdf'' ''%PDF'')"
    by code_simp
  have b: "Load.loadingMethod ?s = ''pymupdf''"
    by code_simp
  have c: "Parse.file ?p = Some (File ''report.pdf'' ''%PDF'')"
    by code_simp
  have d: "Parse.loadingMethod ?p = ''pymupdf''"
    by code_simp
  have e: "parsingOption ?p = ''comprehensive''"
    by code_simp
  show ?thesis
    using one_post_per_submission [of ?s "File ''report.pdf'' ''%PDF''"
        "''http://localhost:8001''" "Response 200 (Parsed None)" ?p
        "File ''report.pdf'' ''%PDF''" "Response 200 (Parsed None)"] a b c d e
    by simp
qed

text \<open>
  Claim C4 as it is written fails: when the request for \<^verbatim>\<open>report.pdf\<close> has just been
  issued and no response can have arrived, the status, empty before, already shows the
  in-progress message.
\<close>

theorem one_post_per_submission_counterexample:
  "Load.status (LoadFile_select toLowerCase_ascii (Some [File ''report.pdf'' ''%PDF'']) LoadFile_init) = []
   \<and> Load.status (fst (LoadFile_handleProcess_start ''http://localhost:8001''
        (LoadFile_select toLowerCase_ascii (Some [File ''report.pdf'' ''%PDF'']) LoadFile_init))) = msg_loading
   \<and> msg_loading \<noteq> []
   \<and> snd (LoadFile_handleProcess_start ''http://localhost:8001''
        (LoadFile_select toLowerCase_ascii (Some [File ''report.pdf'' ''%PDF'']) LoadFile_init)) \<noteq> None"
proof -
  let ?s = "LoadFile_select toLowerCase_ascii (Some [File ''report.pdf'' ''%PDF'']) LoadFile_init"
  have a: "Load.file ?s = Some (File ''report.pdf'' ''%PDF'')"
    by code_simp
  have b: "Load.loadingMethod ?s = ''pymupdf''"
    by code_simp
  have c: "Load.status ?s = []"
    by code_simp
  have d: "msg_loading \<noteq> []"
    by (simp add: msg_loading_def)
  show ?thesis
    using a b c d by (simp add: LoadFile_start_accepted)
qed

subsection \<open>Deleting a stored document\<close>

lemma handleDeleteDocument_ok:
  "ok code \<Longrightarrow>
   handleDeleteDocument apiBaseUrl n s (Response code j) =
     ((case selectedDoc s of
         None \<Rightarrow> s\<lparr>Load.status := msg_delete_ok\<rparr>
       | Some d \<Rightarrow>
           if Document.name d = n
           then s\<lparr>Load.status := msg_delete_ok, selectedDoc := None, loadedContent := None\<rparr>
           else s\<lparr>Load.status := msg_delete_ok\<rparr>),
      [handleDeleteDocument_start apiBaseUrl n, fetchDocuments_request apiBaseUrl])"
  by (simp add: handleDeleteDocument_def handleDeleteDocument_resume_def Let_def
      split: option.splits)

text \<open>
  A delete that the server answers in the 2xx range issues, after the DELETE, one GET of
  the document list and does not touch the list the page holds; the list is replaced by
  what that GET returns.
\<close>

lemma handleDeleteDocument_refetches:
  assumes "ok code"
  shows "snd (handleDeleteDocument apiBaseUrl n s (Response code j)) =
           [\<lparr> method = ''DELETE'', url = apiBaseUrl @ ''/documents/'' @ n, body = None \<rparr>,
            \<lparr> method = ''GET'', url = apiBaseUrl @ ''/documents?type=loaded'', body = None \<rparr>]
         \<and> Load.documents (fst (handleDeleteDocument apiBaseUrl n s (Response code j)))
             = Load.documents s
         \<and> Load.documents (fetchDocuments_resume (Response code' (Parsed docs))
              (fst (handleDeleteDocument apiBaseUrl n s (Response code j)))) = docs"
  using assms
  by (simp add: handleDeleteDocument_ok fetchDocuments_resume_def
      handleDeleteDocument_start_def fetchDocuments_request_def split: option.splits)

lemma example_viewing_a_eq:
  "example_viewing_a =
     LoadFile_init\<lparr>documents := Some [example_doc_a], selectedDoc := Some example_doc_a,
       loadedContent := Some content_of_a, activeTab := ''preview'', Load.status := []\<rparr>"
  by (simp add: example_viewing_a_def handleViewDocument_resume_def fetchDocuments_resume_def
      ok_def LoadFile_init_def)

lemma example_uploaded_b_eq:
  "example_uploaded_b =
     LoadFile_init\<lparr>Load.file := Some (File ''b.pdf'' ''%PDF''),
       documents := Some [example_doc_a], selectedDoc := Some example_doc_a,
       loadedContent := Some content_of_b, activeTab := ''preview'',
       Load.status := msg_load_ok\<rparr>"
proof -
  have sel: "LoadFile_select toLowerCase_ascii (Some [File ''b.pdf'' ''%PDF'']) example_viewing_a
               = example_viewing_a\<lparr>Load.file := Some (File ''b.pdf'' ''%PDF'')\<rparr>"
  proof -
    have e: "endsWith (toLowerCase_ascii ''b.pdf'') ''.pdf''"
      by code_simp
    show ?thesis
      using e
      by (simp add: LoadFile_select_def handleFileChange_def Let_def example_viewing_a_eq
          LoadFile_init_def)
  qed
  show ?thesis
    unfolding example_uploaded_b_def sel
    by (simp add: LoadFile_handleProcess_def LoadFile_handleProcess_start_def
        LoadFile_handleProcess_resume_def ok_def example_viewing_a_eq LoadFile_init_def)
qed

text \<open>
  Claim C5, evaluated on the code. The handler decides by the cell \<^verbatim>\<open>selectedDoc\<close>,
  which an upload does not write. After \<^verbatim>\<open>a.pdf\<close> has been opened from the list and
  \<^verbatim>\<open>b.pdf\<close> has then been uploaded, the preview shows the content of b while the
  selection is still a; deleting \<^verbatim>\<open>a.pdf\<close>, which is not the document on display,
  clears the preview.
\<close>

theorem delete_clears_preview_of_upload:
  "loadedContent example_viewing_a = Some content_of_a
   \<and> loadedContent example_uploaded_b = Some content_of_b
   \<and> content_of_b \<noteq> content_of_a
   \<and> selectedDoc example_uploaded_b = Some example_doc_a
   \<and> loadedContent (fst (handleDeleteDocument ''http://localhost:8001'' ''a.pdf''
        example_uploaded_b (Response 204 (Parsed ())))) = None"
proof -
  have k: "ok 204"
    by (simp add: ok_def)
  have d: "content_of_b \<noteq> content_of_a"
    by (simp add: content_of_a_def content_of_b_def example_loaded_def example_chunk_def)
  show ?thesis
    using d
    by (simp add: handleDeleteDocument_ok [OF k] example_uploaded_b_eq example_viewing_a_eq
        example_doc_a_def)
qed

subsection \<open>Failures\<close>

















subsection \<open>Rendering results\<close>

text \<open>
  The preview of a load result has one block for each chunk, the i-th block made from
  the i-th chunk; a result without a chunk list gives no block; an absent document field
  is shown as N/A.
\<close>

lemma renderPreview_blocks:
  "chunks lc = Some cs \<Longrightarrow>
   length (Preview.blocks (renderPreview toLocaleString lc)) = length cs
   \<and> (\<forall>i<length cs. Preview.blocks (renderPreview toLocaleString lc) ! i
         = renderChunk i (cs ! i))"
  by (simp add: renderPreview_def nth_enumerate_eq)

lemma renderPreview_no_chunks:
  "chunks lc = None \<Longrightarrow> Preview.blocks (renderPreview toLocaleString lc) = []"
  by (simp add: renderPreview_def)

lemma renderPreview_placeholders:
  "(LoadedContent.document_type lc = None \<longrightarrow>
      Preview.info (renderPreview toLocaleString lc) ! 0
        = [Text lbl_document_type, Text ''N/A''])
   \<and> (LoadedContent.total_pages lc = None \<longrightarrow>
      Preview.info (renderPreview toLocaleString lc) ! 1 = [Text lbl_pages, Text ''N/A''])
   \<and> (LoadedContent.total_chunks lc = None \<longrightarrow>
      Preview.info (renderPreview toLocaleString lc) ! 2 = [Text lbl_chunks, Text ''N/A''])
   \<and> (LoadedContent.loading_method lc = None \<longrightarrow>
      Preview.info (renderPreview toLocaleString lc) ! 3
        = [Text lbl_loading_method, Text ''N/A''])
   \<and> (LoadedContent.chunking_method lc = None \<longrightarrow>
      Preview.info (renderPreview toLocaleString lc) ! 4
        = [Text lbl_chunking_method, Text ''N/A''])
   \<and> (LoadedContent.timestamp lc = None \<longrightarrow>
      Preview.info (renderPreview toLocaleString lc) ! 5
        = [Text lbl_processed_at, Text ''N/A''])"
  by (simp add: renderPreview_def or_str_def or_num_def)

text \<open>
  A parse result whose content list is present renders, with one block for each item in
  the order of the list.
\<close>

lemma renderParsed_blocks:
  "ParsedContent.content p = Some items \<Longrightarrow>
   (\<exists>v. renderParsed toLocaleString shownType p = Inr v
        \<and> ParsedView.blocks v = map renderItem items)"
  by (simp add: renderParsed_def)

lemma renderParsed_fails_iff:
  "renderParsed toLocaleString shownType p = Inl TypeError
     \<longleftrightarrow> ParsedContent.content p = None"
  by (simp add: renderParsed_def split: option.splits)

text \<open>
  Claim C6, evaluated on the code. The load page guards its list with
  \<^verbatim>\<open>chunks?.map\<close>; the parse page reads \<^verbatim>\<open>parsedContent.content.map\<close> with no guard.
  When \<^verbatim>\<open>report.pdf\<close> is submitted and the server answers 200 with a parsed_content
  that has no content list, the render of the parse page fails with a TypeError, where
  the load page renders the like answer with no block.
\<close>

theorem parse_render_fails_without_content:
  "ParseFile_render id
     (fst (ParseFile_handleProcess ''http://localhost:8001''
        (ParseFile_select toLowerCase_ascii (Some [File ''report.pdf'' ''%PDF''])
           ParseFile_init)
        (Response 200 (Parsed (Some (example_parsed None))))))
   = Inl TypeError
   \<and> renderRightPanel id
     (fst (LoadFile_handleProcess ''http://localhost:8001''
        (LoadFile_select toLowerCase_ascii (Some [File ''report.pdf'' ''%PDF''])
           LoadFile_init)
        (Response 200 (Parsed (Some (example_loaded None))))))
   = Inr (PreviewPanel
       \<lparr> Preview.info =
           [[Text lbl_document_type, Text ''N/A''], [Text lbl_pages, Text ''N/A''],
            [Text lbl_chunks, Text ''N/A''], [Text lbl_loading_method, Text ''N/A''],
            [Text lbl_chunking_method, Text ''N/A''], [Text lbl_processed_at, Text ''N/A'']],
         Preview.blocks = [] \<rparr>)"
  by code_simp

subsection \<open>The body of a parse request and the parsing options\<close>

lemma ParseFile_field_names:
  "field_names (ParseFile_formData g p) =
     [''file'', ''loading_method'', ''parsing_option'', ''file_type'', ''extract_images'',
      ''extract_tables'']"
  by (simp add: ParseFile_formData_def field_names_def)

lemma renderParsingOptions_count:
  "length (renderParsingOptions p) =
     (if Parse.fileType p = ''pdf'' then 7 else if Parse.fileType p = ''markdown'' then 3 else 1)"
  by (simp add: renderParsingOptions_def)

text \<open>
  Claim C8, evaluated on the code. A parse body always has the six fields, and the page
  offers seven options for pdf, three for markdown and one otherwise. But the option
  that is submitted is the cell \<^verbatim>\<open>parsingOption\<close>, which a change of file type does not
  reset: after \<^verbatim>\<open>notes.txt\<close> is selected on the initial state, the only option on offer
  is text_only, and the request carries comprehensive.
\<close>

theorem parse_request_stale_option:
  "snd (ParseFile_handleProcess_start ''http://localhost:8001''
          (ParseFile_select toLowerCase_ascii (Some [File ''notes.txt'' ''hi'']) ParseFile_init)) =
     Some \<lparr> method = ''POST'', url = ''http://localhost:8001/parse'',
            body = Some [(''file'', FileValue (File ''notes.txt'' ''hi'')),
                         (''loading_method'', TextValue ''basic''),
                         (''parsing_option'', TextValue ''comprehensive''),
                         (''file_type'', TextValue ''txt''),
                         (''extract_images'', TextValue ''true''),
                         (''extract_tables'', TextValue ''true'')] \<rparr>
   \<and> renderParsingOptions (ParseFile_select toLowerCase_ascii (Some [File ''notes.txt'' ''hi'']) ParseFile_init)
       = [''text_only'']"
  by code_simp

end
